theory Spec2Isabelle
  imports Main
begin

section \<open>JavaScript strings\<close>

text \<open>
  A JavaScript string is a sequence of code units. The model uses \<^typ>\<open>string\<close>, whose
  characters are the code units 0 to 255 (ASCII and Latin-1); \<open>code c\<close> is the number of
  the code unit. Byte arrays (\<open>Uint8Array\<close>) are lists of the same type.
\<close>

definition code :: "char \<Rightarrow> nat" where
  "code c = of_char c"

text \<open>\<open>[0-9]\<close>, which is also \<open>\d\<close>.\<close>

definition isDigit :: "char \<Rightarrow> bool" where
  "isDigit c = (48 \<le> code c \<and> code c \<le> 57)"

text \<open>\<open>[a-z]\<close> and \<open>[A-Z]\<close>.\<close>

definition isLowerAZ :: "char \<Rightarrow> bool" where
  "isLowerAZ c = (97 \<le> code c \<and> code c \<le> 122)"

definition isUpperAZ :: "char \<Rightarrow> bool" where
  "isUpperAZ c = (65 \<le> code c \<and> code c \<le> 90)"

text \<open>
  \<open>\s\<close> and the characters removed by \<open>trim()\<close>: WhiteSpace and LineTerminator of
  ECMAScript. Below 256 these are TAB, LF, VT, FF, CR, SPACE and NO-BREAK SPACE.
\<close>

definition isSpace :: "char \<Rightarrow> bool" where
  "isSpace c = (code c \<in> {9, 10, 11, 12, 13, 32, 160})"

text \<open>
  \<open>String.prototype.toLowerCase\<close> on one code unit below 256: \<open>A-Z\<close>, and the
  Latin-1 capitals U+00C0 to U+00DE without the multiplication sign U+00D7, move up by 32.
\<close>

definition lowerChar :: "char \<Rightarrow> char" where
  "lowerChar c =
     (if isUpperAZ c \<or> (192 \<le> code c \<and> code c \<le> 222 \<and> code c \<noteq> 215)
      then char_of (code c + 32) else c)"

definition toLowerCase :: "string \<Rightarrow> string" where
  "toLowerCase s = map lowerChar s"

definition trim :: "string \<Rightarrow> string" where
  "trim s = rev (dropWhile isSpace (rev (dropWhile isSpace s)))"

text \<open>\<open>s.startsWith(p)\<close>, \<open>s.endsWith(p)\<close> and \<open>s.includes(p)\<close>.\<close>

definition startsWith :: "string \<Rightarrow> string \<Rightarrow> bool" where
  "startsWith s p = (take (length p) s = p)"

definition endsWith :: "string \<Rightarrow> string \<Rightarrow> bool" where
  "endsWith s p = (length p \<le> length s \<and> drop (length s - length p) s = p)"

fun includesStr :: "string \<Rightarrow> string \<Rightarrow> bool" where
  "includesStr [] p = (p = [])"
| "includesStr (c # cs) p = (startsWith (c # cs) p \<or> includesStr cs p)"

text \<open>\<open>s.substring(0, n)\<close> is \<open>take n s\<close>; \<open>s.substring(n)\<close> is \<open>drop n s\<close>.\<close>

section \<open>uploadSlip.ts: utility functions\<close>

text \<open>\<open>.replace(/\s+/g, '-')\<close>: every maximal run of white space becomes one hyphen.\<close>

function replaceSpaces :: "string \<Rightarrow> string" where
  "replaceSpaces [] = []"
| "replaceSpaces (c # cs) =
     (if isSpace c then CHR ''-'' # replaceSpaces (dropWhile isSpace cs)
      else c # replaceSpaces cs)"
  by pat_completeness auto
termination
  by (relation "measure length") (auto simp: length_dropWhile_le less_Suc_eq_le)

text \<open>The class \<open>[a-z0-9\-]\<close>; \<open>.replace(/[^a-z0-9\-]/g, '')\<close> keeps its members only.\<close>

definition isNormChar :: "char \<Rightarrow> bool" where
  "isNormChar c = (isLowerAZ c \<or> isDigit c \<or> c = CHR ''-'')"

text \<open>
  \<^verbatim>\<open>const normalize = (str)=>str.trim().toLowerCase().replace(/\s+/g, '-').replace(/[^a-z0-9\-]/g, '');\<close>
\<close>

definition normalize_str :: "string \<Rightarrow> string" where
  "normalize_str str = filter isNormChar (replaceSpaces (toLowerCase (trim str)))"

text \<open>
  \<^verbatim>\<open>maskSensitiveData\<close>, on a string argument.
\<close>

definition maskSensitiveData :: "string \<Rightarrow> string" where
  "maskSensitiveData data =
     (if includesStr data ''Bearer'' then take 10 data @ ''***''
      else if includesStr data ''http'' then take 30 data @ ''***''
      else if length data > 50 then take 20 data @ ''***''
      else data)"

section \<open>uploadSlip.ts: the rate limiter\<close>

text \<open>
  An entry of \<^verbatim>\<open>rateLimitStore\<close>: the admission timestamps and the instant of the last
  cleanup, in milliseconds (\<^verbatim>\<open>Date.now()\<close>). The store is a \<^verbatim>\<open>Map\<close> from client key to
  entry.
\<close>

record clientData =
  requests :: "int list"
  lastCleanup :: int

type_synonym rateLimitStore = "string \<rightharpoonup> clientData"

datatype rateLimitResult = Allowed | Denied (resetTime: int)

definition RATE_LIMIT_WINDOW :: int where
  "RATE_LIMIT_WINDOW = 60000"

definition RATE_LIMIT_MAX_REQUESTS :: nat where
  "RATE_LIMIT_MAX_REQUESTS = 30"

text \<open>
  The loop \<^verbatim>\<open>for (const [ip, data] of rateLimitStore.entries())\<close> of the cleanup: it
  deletes every entry whose \<^verbatim>\<open>lastCleanup\<close> is more than two windows old.
\<close>

definition sweep :: "int \<Rightarrow> rateLimitStore \<Rightarrow> rateLimitStore" where
  "sweep now store =
     (\<lambda>ip. case store ip of
             None \<Rightarrow> None
           | Some data \<Rightarrow>
               if now - lastCleanup data > RATE_LIMIT_WINDOW * 2 then None else Some data)"

text \<open>
  \<^verbatim>\<open>checkRateLimit(clientIP)\<close>, with the clock reading \<open>now\<close> and the store passed in
  and returned. \<^verbatim>\<open>clientData\<close> is the object held by the map when the key is present, so
  the assignments to its fields change the stored entry too: the pruned \<^verbatim>\<open>requests\<close>
  are stored on the denied path as well, and the last assignment to \<^verbatim>\<open>lastCleanup\<close>
  reaches the map only if the sweep has left the entry there. In the denied branch
  \<^verbatim>\<open>requests[0]\<close> exists, since the list has at least 30 elements.
\<close>

definition checkRateLimit ::
    "int \<Rightarrow> string \<Rightarrow> rateLimitStore \<Rightarrow> rateLimitResult \<times> rateLimitStore" where
  "checkRateLimit now clientIP store =
     (let found = (case store clientIP of
                     Some d \<Rightarrow> d
                   | None \<Rightarrow> \<lparr>requests = [], lastCleanup = now\<rparr>);
          pruned = found\<lparr>requests :=
                     filter (\<lambda>timestamp. now - timestamp < RATE_LIMIT_WINDOW) (requests found)\<rparr>;
          store1 = (case store clientIP of
                      Some d \<Rightarrow> store(clientIP \<mapsto> pruned)
                    | None \<Rightarrow> store)
      in if length (requests pruned) \<ge> RATE_LIMIT_MAX_REQUESTS
         then (Denied (hd (requests pruned) + RATE_LIMIT_WINDOW), store1)
         else
           let pushed = pruned\<lparr>requests := requests pruned @ [now]\<rparr>;
               store2 = store1(clientIP \<mapsto> pushed)
           in if now - lastCleanup pushed > RATE_LIMIT_WINDOW
              then
                let store3 = sweep now store2;
                    store4 = (case store3 clientIP of
                                Some d \<Rightarrow> store3(clientIP \<mapsto> d\<lparr>lastCleanup := now\<rparr>)
                              | None \<Rightarrow> store3)
                in (Allowed, store4)
              else (Allowed, store2))"

text \<open>
  The checks that the handler makes for the successive requests of one client, at the
  clock readings given: each check works on the store left by the one before. The
  results are returned in order, with the last store.
\<close>

fun checkTimes ::
    "string \<Rightarrow> int list \<Rightarrow> rateLimitStore \<Rightarrow> rateLimitResult list \<times> rateLimitStore" where
  "checkTimes clientIP [] store = ([], store)"
| "checkTimes clientIP (now # later) store =
     (case checkRateLimit now clientIP store of
        (result, store') \<Rightarrow>
          (case checkTimes clientIP later store' of
             (results, store'') \<Rightarrow> (result # results, store'')))"

section \<open>uploadSlip.ts: validation\<close>

text \<open>
  The upload payload, from the form fields or the JSON body. A field that is absent,
  \<^verbatim>\<open>null\<close> or \<^verbatim>\<open>undefined\<close> is \<open>None\<close>; the fields present are strings.
\<close>

record uploadData =
  branch :: "string option"
  date :: "string option"
  filename :: "string option"
  imageUrl :: "string option"

text \<open>JavaScript truthiness of such a field: present and not the empty string.\<close>

definition truthy :: "string option \<Rightarrow> bool" where
  "truthy v = (case v of None \<Rightarrow> False | Some s \<Rightarrow> s \<noteq> [])"

text \<open>\<^verbatim>\<open>/^\d{4}-\d{2}-\d{2}$/\<close>\<close>

definition dateRegex :: "string \<Rightarrow> bool" where
  "dateRegex s =
     (length s = 10 \<and> list_all isDigit (take 4 s) \<and> s ! 4 = CHR ''-'' \<and>
      list_all isDigit (take 2 (drop 5 s)) \<and> s ! 7 = CHR ''-'' \<and>
      list_all isDigit (drop 8 s))"

text \<open>
  \<^verbatim>\<open>/^[a-zA-Z0-9\-_]+\.(jpg|jpeg|png|gif|webp)$/i\<close>. The character after the stem must
  be a dot, which is not in the class, so the stem is the longest prefix of class
  members. With the flag \<open>i\<close> an ASCII letter of the pattern matches both of its cases
  and nothing else.
\<close>

definition isNameChar :: "char \<Rightarrow> bool" where
  "isNameChar c = (isLowerAZ c \<or> isUpperAZ c \<or> isDigit c \<or> c = CHR ''-'' \<or> c = CHR ''_'')"

definition asciiLower :: "char \<Rightarrow> char" where
  "asciiLower c = (if isUpperAZ c then char_of (code c + 32) else c)"

definition imageExtensions :: "string list" where
  "imageExtensions = [''jpg'', ''jpeg'', ''png'', ''gif'', ''webp'']"

definition validFilenamePattern :: "string \<Rightarrow> bool" where
  "validFilenamePattern s =
     (let stem = takeWhile isNameChar s in
      stem \<noteq> [] \<and>
      (case drop (length stem) s of
         [] \<Rightarrow> False
       | d # ext \<Rightarrow> d = CHR ''.'' \<and> map asciiLower ext \<in> set imageExtensions))"

definition validateUploadData :: "uploadData \<Rightarrow> string list" where
  "validateUploadData u =
     (if \<not> truthy (branch u) then [''branch is required''] else []) @
     (if \<not> truthy (date u) then [''date is required''] else []) @
     (if \<not> truthy (filename u) then [''filename is required''] else []) @
     (case date u of
        Some d \<Rightarrow>
          if d \<noteq> [] \<and> \<not> dateRegex d then [''Date must be in YYYY-MM-DD format''] else []
      | None \<Rightarrow> []) @
     (case filename u of
        Some f \<Rightarrow>
          if f \<noteq> [] \<and> \<not> validFilenamePattern f
          then [''Filename format invalid. Only alphanumeric characters, dashes, and underscores allowed with valid image extensions (jpg, jpeg, png, gif, webp).'']
          else []
      | None \<Rightarrow> [])"

text \<open>
  \<^verbatim>\<open>validateImageSize(imageData)\<close>, with the default \<^verbatim>\<open>maxSizeBytes = 10 * 1024 * 1024\<close> of
  its only call; the message then reads 10MB.
\<close>

definition validateImageSize :: "string \<Rightarrow> string option" where
  "validateImageSize imageData =
     (if length imageData > 10 * 1024 * 1024
      then Some ''Image too large. Maximum size is 10MB''
      else None)"

section \<open>uploadSlip.ts: the final filename\<close>

text \<open>
  \<^verbatim>\<open>s.replace(/R$/, r)\<close> for a pattern \<open>R\<close> anchored at the end of the string, where
  \<open>matches t\<close> says that \<open>R\<close> matches the whole of \<open>t\<close>: the leftmost suffix that
  matches is replaced by \<open>r\<close>, and a string without such a suffix is returned as it is.
\<close>

fun replaceAtEnd :: "(string \<Rightarrow> bool) \<Rightarrow> string \<Rightarrow> string \<Rightarrow> string" where
  "replaceAtEnd matches r [] = (if matches [] then r else [])"
| "replaceAtEnd matches r (c # cs) =
     (if matches (c # cs) then r else c # replaceAtEnd matches r cs)"

text \<open>\<^verbatim>\<open>\.[^/.]+\<close> and \<^verbatim>\<open>\.jpg\<close>, each against a whole string.\<close>

definition extensionPattern :: "string \<Rightarrow> bool" where
  "extensionPattern t =
     (case t of
        [] \<Rightarrow> False
      | d # ext \<Rightarrow> d = CHR ''.'' \<and> ext \<noteq> [] \<and>
                  list_all (\<lambda>c. c \<noteq> CHR ''/'' \<and> c \<noteq> CHR ''.'') ext)"

definition dotJpgPattern :: "string \<Rightarrow> bool" where
  "dotJpgPattern t = (t = ''.jpg'')"

text \<open>
  \<^verbatim>\<open>generateFinalFilename(originalFilename)\<close>; \<open>uuid\<close> is the string that
  \<^verbatim>\<open>crypto.randomUUID()\<close> returns in this call.
\<close>

definition generateFinalFilename :: "string \<Rightarrow> string \<Rightarrow> string" where
  "generateFinalFilename uuid originalFilename =
     (let finalFilename =
            (if \<not> endsWith (toLowerCase originalFilename) ''.jpg''
             then replaceAtEnd extensionPattern [] originalFilename @ ''.jpg''
             else originalFilename);
          uniqueSuffix = take 8 uuid
      in replaceAtEnd dotJpgPattern (''_'' @ uniqueSuffix @ ''.jpg'') finalFilename)"

section \<open>The webhook function: payload validation\<close>

text \<open>
  The parsed JSON payload: \<open>None\<close> when it is not an object, otherwise the map from
  field name to string value (\<^verbatim>\<open>payload[field]\<close>). \<open>urlParses u\<close> stands for
  \<^verbatim>\<open>new URL(u)\<close> returning without an exception.
\<close>

type_synonym webhookPayload = "(string \<rightharpoonup> string) option"

definition requiredFields :: "string list" where
  "requiredFields = [''public_url'', ''filename'', ''branch'', ''date'', ''metadataId'']"

text \<open>\<^verbatim>\<open>/^[0-9a-f]{8}-[0-9a-f]{4}-[0-9a-f]{4}-[0-9a-f]{4}-[0-9a-f]{12}$/i\<close>\<close>

definition isHex :: "char \<Rightarrow> bool" where
  "isHex c = (isDigit c \<or> (97 \<le> code c \<and> code c \<le> 102) \<or> (65 \<le> code c \<and> code c \<le> 70))"

definition uuidRegex :: "string \<Rightarrow> bool" where
  "uuidRegex s =
     (length s = 36 \<and>
      list_all isHex (take 8 s) \<and> s ! 8 = CHR ''-'' \<and>
      list_all isHex (take 4 (drop 9 s)) \<and> s ! 13 = CHR ''-'' \<and>
      list_all isHex (take 4 (drop 14 s)) \<and> s ! 18 = CHR ''-'' \<and>
      list_all isHex (take 4 (drop 19 s)) \<and> s ! 23 = CHR ''-'' \<and>
      list_all isHex (drop 24 s))"

definition missingField :: "(string \<rightharpoonup> string) \<Rightarrow> string \<Rightarrow> string list" where
  "missingField p field =
     (if \<not> truthy (p field) then [''Missing required field: '' @ field] else [])"

definition validatePayload :: "(string \<Rightarrow> bool) \<Rightarrow> webhookPayload \<Rightarrow> string list" where
  "validatePayload urlParses payload =
     (case payload of
        None \<Rightarrow> [''Payload must be a valid object'']
      | Some p \<Rightarrow>
          concat (map (missingField p) requiredFields) @
          (if truthy (p ''public_url'')
           then (if urlParses (the (p ''public_url''))
                 then (if \<not> includesStr (the (p ''public_url'')) ''supabase.co'' \<and>
                          \<not> includesStr (the (p ''public_url'')) ''storage''
                       then [''public_url must be a valid Supabase storage URL'']
                       else [])
                 else [''public_url must be a valid URL''])
           else []) @
          (if truthy (p ''date'') \<and> \<not> dateRegex (the (p ''date''))
           then [''date must be in YYYY-MM-DD format''] else []) @
          (if truthy (p ''filename'') \<and> \<not> validFilenamePattern (the (p ''filename''))
           then [''filename must be alphanumeric with valid image extension''] else []) @
          (if truthy (p ''metadataId'') \<and> \<not> uuidRegex (the (p ''metadataId''))
           then [''metadataId must be a valid UUID''] else []))"

text \<open>
  The words of the specification, for comparison: a UUID of version 4 has the shape
  above, the version digit 4 and a variant digit among 8, 9, a and b.
\<close>

definition isUuidV4_spec :: "string \<Rightarrow> bool" where
  "isUuidV4_spec s =
     (uuidRegex s \<and> s ! 14 = CHR ''4'' \<and> asciiLower (s ! 19) \<in> set ''89ab'')"

section \<open>uploadSlip.ts: fetching an image with session handling\<close>

text \<open>
  The requests differ in the URL, the redirect mode, the header set (the one for a
  document or the one for an image), the referer and the cookie header. Of a response
  the code reads the status, the status text, the final URL, the cookies it sets
  (\<^verbatim>\<open>headers.getSetCookie?.()\<close>, \<open>None\<close> where the method does not exist, and
  \<^verbatim>\<open>headers.get('Set-Cookie')\<close>), the content type, the location and the body. A response
  carries its whole body; a transport failure is a \<^verbatim>\<open>fetch\<close> that throws.
\<close>

datatype redirectMode = Follow | Manual

datatype headerSet = DocumentHeaders | ImageHeaders

record request =
  reqUrl :: string
  reqRedirect :: redirectMode
  reqHeaders :: headerSet
  reqReferer :: "string option"
  reqCookie :: "string option"

record response =
  status :: nat
  statusText :: string
  respUrl :: string
  getSetCookie :: "string list option"
  setCookieHeader :: "string option"
  contentType :: "string option"
  location :: "string option"
  body :: string

text \<open>
  The platform and the services around the function, over a state \<open>'w\<close> of the outside
  world. A call that throws returns \<open>Inl\<close> with the message of the error.
  \<^item> \<open>fetch\<close>: \<^verbatim>\<open>fetch(url, options)\<close>;
  \<^item> \<open>urlOrigin\<close>: \<^verbatim>\<open>new URL(url).origin\<close>;
  \<^item> \<open>urlResolve location url\<close>: \<^verbatim>\<open>new URL(location, url).href\<close>;
  \<^item> \<open>randomUUID\<close>: \<^verbatim>\<open>crypto.randomUUID()\<close>;
  \<^item> \<open>storageUpload path data contentType\<close>: the \<^verbatim>\<open>upload\<close> of the bucket
    \<^verbatim>\<open>edge-slips\<close>, returning the message of its error, if any;
  \<^item> \<open>getPublicUrl\<close>: the public URL of a path of the bucket.
\<close>

record 'w platform =
  fetch :: "'w \<Rightarrow> request \<Rightarrow> (string + response) \<times> 'w"
  urlOrigin :: "string \<Rightarrow> string + string"
  urlResolve :: "string \<Rightarrow> string \<Rightarrow> string + string"
  randomUUID :: "'w \<Rightarrow> string \<times> 'w"
  storageUpload :: "'w \<Rightarrow> string \<Rightarrow> string \<Rightarrow> string \<Rightarrow> string option \<times> 'w"
  getPublicUrl :: "string \<Rightarrow> string"

text \<open>\<^verbatim>\<open>s.split(sep)\<close> for a separator of one character, and \<^verbatim>\<open>xs.join(sep)\<close>.\<close>

fun splitOn :: "char \<Rightarrow> string \<Rightarrow> string list" where
  "splitOn sep [] = [[]]"
| "splitOn sep (c # cs) =
     (if c = sep then [] # splitOn sep cs
      else (case splitOn sep cs of
              [] \<Rightarrow> [[c]]
            | piece # pieces \<Rightarrow> (c # piece) # pieces))"

fun joinWith :: "string \<Rightarrow> string list \<Rightarrow> string" where
  "joinWith sep [] = []"
| "joinWith sep [x] = x"
| "joinWith sep (x # y # ys) = x @ sep @ joinWith sep (y # ys)"

text \<open>\<^verbatim>\<open>[...new Set(xs)]\<close>: the first occurrence of each element, in order.\<close>

fun dedupe :: "string list \<Rightarrow> string list" where
  "dedupe [] = []"
| "dedupe (x # xs) = x # filter (\<lambda>y. y \<noteq> x) (dedupe xs)"

text \<open>\<^verbatim>\<open>h.split(';')[0]\<close>; the list of pieces is never empty.\<close>

definition cookiePair :: "string \<Rightarrow> string" where
  "cookiePair h = hd (splitOn CHR '';'' h)"

definition extractCookies :: "response \<Rightarrow> string list" where
  "extractCookies r =
     (let cookies =
            filter (\<lambda>pair. pair \<noteq> [])
              (map cookiePair (case getSetCookie r of Some hs \<Rightarrow> hs | None \<Rightarrow> []))
      in if cookies = []
         then (if truthy (setCookieHeader r)
               then filter (\<lambda>pair. pair \<noteq> [])
                      (map (\<lambda>cookie. cookiePair (trim cookie))
                         (splitOn CHR '','' (the (setCookieHeader r))))
               else cookies)
         else cookies)"

text \<open>\<^verbatim>\<open>response.ok\<close>\<close>

definition ok :: "response \<Rightarrow> bool" where
  "ok r = (200 \<le> status r \<and> status r \<le> 299)"

text \<open>\<^verbatim>\<open>contentType?.startsWith('image/')\<close>, where the header may be absent.\<close>

definition isImageType :: "string option \<Rightarrow> bool" where
  "isImageType ct = (case ct of Some t \<Rightarrow> startsWith t ''image/'' | None \<Rightarrow> False)"

text \<open>The decimal digits of a number, as a template literal prints it.\<close>

fun decimal :: "nat \<Rightarrow> string" where
  "decimal n =
     (if n < 10 then [char_of (48 + n)]
      else decimal (n div 10) @ [char_of (48 + n mod 10)])"

declare decimal.simps [simp del]

text \<open>
  Step 3 of an attempt: on a redirect of the probe with a location, the target is
  resolved, and a target that contains \<open>redirect\<close> is visited; the cookies of the visit
  are appended. The result is the list \<^verbatim>\<open>allCookies\<close>, or the error thrown.
\<close>

definition verificationHop ::
    "'w platform \<Rightarrow> 'w \<Rightarrow> string \<Rightarrow> string \<Rightarrow> response \<Rightarrow> string list
       \<Rightarrow> (string + string list) \<times> 'w" where
  "verificationHop pf w url baseDomain initialResponse allCookies =
     (if (status initialResponse = 301 \<or> status initialResponse = 302)
         \<and> truthy (location initialResponse)
      then
        (case (if startsWith (the (location initialResponse)) ''http''
               then Inr (the (location initialResponse))
               else urlResolve pf (the (location initialResponse)) url) of
           Inl e \<Rightarrow> (Inl e, w)
         | Inr targetUrl \<Rightarrow>
             if includesStr targetUrl ''gog/redirect'' \<or> includesStr targetUrl ''redirect''
             then
               (case fetch pf w
                       \<lparr>reqUrl = targetUrl, reqRedirect = Follow, reqHeaders = DocumentHeaders,
                        reqReferer = Some baseDomain,
                        reqCookie = Some (joinWith ''; '' allCookies)\<rparr> of
                  (Inl e, w') \<Rightarrow> (Inl e, w')
                | (Inr verificationResponse, w') \<Rightarrow>
                    (Inr (allCookies @ extractCookies verificationResponse), w'))
             else (Inr allCookies, w))
      else (Inr allCookies, w))"

text \<open>
  Steps 1 to 4 of an attempt, up to the final response: the visit of the origin, the probe
  with manual redirects, the verification hop and the final request for \<open>url\<close> with the
  merged cookies. The result is the final response, or the error thrown on the way.
\<close>

definition attemptSteps ::
    "'w platform \<Rightarrow> 'w \<Rightarrow> string \<Rightarrow> (string + response) \<times> 'w" where
  "attemptSteps pf w url =
     (case urlOrigin pf url of
        Inl e \<Rightarrow> (Inl e, w)
      | Inr baseDomain \<Rightarrow>
          (case fetch pf w
                  \<lparr>reqUrl = baseDomain, reqRedirect = Follow, reqHeaders = DocumentHeaders,
                   reqReferer = None, reqCookie = None\<rparr> of
             (Inl e, w1) \<Rightarrow> (Inl e, w1)
           | (Inr domainResponse, w1) \<Rightarrow>
               (let sessionCookies = extractCookies domainResponse in
                case fetch pf w1
                       \<lparr>reqUrl = url, reqRedirect = Manual, reqHeaders = ImageHeaders,
                        reqReferer = Some baseDomain,
                        reqCookie = Some (joinWith ''; '' sessionCookies)\<rparr> of
                  (Inl e, w2) \<Rightarrow> (Inl e, w2)
                | (Inr initialResponse, w2) \<Rightarrow>
                    (let additionalCookies = extractCookies initialResponse;
                         allCookies = dedupe (sessionCookies @ additionalCookies)
                     in case verificationHop pf w2 url baseDomain initialResponse allCookies of
                          (Inl e, w3) \<Rightarrow> (Inl e, w3)
                        | (Inr allCookies', w3) \<Rightarrow>
                            fetch pf w3
                              \<lparr>reqUrl = url, reqRedirect = Follow, reqHeaders = ImageHeaders,
                               reqReferer = Some baseDomain,
                               reqCookie = Some (joinWith ''; '' (dedupe allCookies'))\<rparr>))))"

text \<open>
  The result of \<^verbatim>\<open>fetchImageWithSessionHandling\<close>: \<^verbatim>\<open>{success: true, data, contentType}\<close>
  or \<^verbatim>\<open>{success: false, error, details, finalUrl}\<close>.
\<close>

datatype fetchOutcome =
    FetchSuccess string string
  | FetchFailure string string "string option"

text \<open>
  What the code does with the final response, inside \<^verbatim>\<open>try\<close>: \<open>Inr (Some r)\<close> returns
  \<open>r\<close>, \<open>Inr None\<close> goes on to the next attempt, \<open>Inl e\<close> throws. A response that is ok,
  is not an image and is not HTML has its body read by \<^verbatim>\<open>text()\<close> and then again by
  \<^verbatim>\<open>arrayBuffer()\<close>, which throws since the body is used already.
\<close>

definition handleFinalResponse ::
    "nat \<Rightarrow> nat \<Rightarrow> response \<Rightarrow> string + fetchOutcome option" where
  "handleFinalResponse attempt maxRetries finalResponse =
     (if ok finalResponse
      then
        (if \<not> isImageType (contentType finalResponse)
         then
           (let responseText = body finalResponse in
            if includesStr responseText ''<!DOCTYPE html'' \<or> includesStr responseText ''<html''
            then
              (if attempt = maxRetries
               then Inr (Some (FetchFailure
                       ''Unable to bypass bot protection after multiple attempts''
                       (take 300 responseText)
                       (Some (maskSensitiveData (respUrl finalResponse)))))
               else Inr None)
            else Inl ''Body already consumed.'')
         else Inr (Some (FetchSuccess (body finalResponse)
                 (if isImageType (contentType finalResponse)
                  then the (contentType finalResponse)
                  else ''application/octet-stream''))))
      else
        (if attempt = maxRetries
         then Inr (Some (FetchFailure
                 (''Failed to fetch image: '' @ decimal (status finalResponse) @ '' '' @
                    statusText finalResponse)
                 (take 300 (body finalResponse))
                 (Some (maskSensitiveData (respUrl finalResponse)))))
         else Inr None))"

text \<open>The \<^verbatim>\<open>catch\<close> block of an attempt.\<close>

definition catchBlock :: "nat \<Rightarrow> nat \<Rightarrow> string \<Rightarrow> fetchOutcome option" where
  "catchBlock attempt maxRetries e =
     (if attempt = maxRetries
      then Some (FetchFailure ''Network error while fetching image'' e None)
      else None)"

text \<open>One turn of the loop: \<open>Some r\<close> returns \<open>r\<close>, \<open>None\<close> goes on to the next attempt.\<close>

definition attemptBody ::
    "'w platform \<Rightarrow> 'w \<Rightarrow> string \<Rightarrow> nat \<Rightarrow> nat \<Rightarrow> fetchOutcome option \<times> 'w" where
  "attemptBody pf w url attempt maxRetries =
     (case attemptSteps pf w url of
        (Inl e, w') \<Rightarrow> (catchBlock attempt maxRetries e, w')
      | (Inr finalResponse, w') \<Rightarrow>
          (case handleFinalResponse attempt maxRetries finalResponse of
             Inl e \<Rightarrow> (catchBlock attempt maxRetries e, w')
           | Inr r \<Rightarrow> (r, w')))"

text \<open>
  The loop \<^verbatim>\<open>for(let attempt = 1; attempt <= maxRetries; attempt++)\<close>, from the attempt
  given. It returns the result, the number of the attempt that returned it, and the
  state of the world. A loop that runs out returns \<^verbatim>\<open>undefined\<close>, here \<open>None\<close>. The waits
  between the attempts are not part of the model.
\<close>

function fetchLoop ::
    "'w platform \<Rightarrow> string \<Rightarrow> nat \<Rightarrow> nat \<Rightarrow> 'w \<Rightarrow> fetchOutcome option \<times> nat \<times> 'w" where
  "fetchLoop pf url maxRetries attempt w =
     (if attempt \<le> maxRetries
      then (case attemptBody pf w url attempt maxRetries of
              (Some r, w') \<Rightarrow> (Some r, attempt, w')
            | (None, w') \<Rightarrow> fetchLoop pf url maxRetries (attempt + 1) w')
      else (None, attempt, w))"
  by pat_completeness auto
termination
  by (relation "measure (\<lambda>(pf, url, maxRetries, attempt, w). maxRetries + 1 - attempt)") auto

declare fetchLoop.simps [simp del]

definition fetchImageWithSessionHandling ::
    "'w platform \<Rightarrow> 'w \<Rightarrow> string \<Rightarrow> nat \<Rightarrow> fetchOutcome option \<times> nat \<times> 'w" where
  "fetchImageWithSessionHandling pf w url maxRetries = fetchLoop pf url maxRetries 1 w"

section \<open>uploadSlip.ts: processing an upload\<close>

text \<open>The uploaded \<^verbatim>\<open>File\<close>: its bytes, its declared type and its name.\<close>

record imageFile =
  fileBytes :: string
  fileType :: string
  fileName :: string

text \<open>
  The results of \<^verbatim>\<open>processImageUpload\<close>: the success with the public URL and the
  metadata (final filename, storage path, size in bytes, upload mode), the failure with
  \<^verbatim>\<open>error\<close>, \<^verbatim>\<open>details\<close> and \<^verbatim>\<open>finalUrl\<close>, and the failure for bot protection, whose
  texts are fixed but for \<^verbatim>\<open>originalError\<close>.
\<close>

datatype uploadResult =
    UploadSuccess string string string nat string
  | UploadFailure string "string option" "string option"
  | UploadBotProtection string

text \<open>A write to the storage: path, bytes and content type.\<close>

type_synonym storageWrite = "string \<times> string \<times> string"

text \<open>
  The first part of \<^verbatim>\<open>processImageUpload\<close>: the bytes, the content type and the upload mode,
  from the file or from the URL (with the default of three attempts), or else the value
  returned early. \<open>Inl (Inl e)\<close> is an exception: a fetch that returned
  \<^verbatim>\<open>undefined\<close> makes \<^verbatim>\<open>fetchResult.success\<close> throw.
\<close>

definition acquireImage ::
    "'w platform \<Rightarrow> 'w \<Rightarrow> uploadData \<Rightarrow> imageFile option
       \<Rightarrow> ((string + uploadResult) + string \<times> string \<times> string) \<times> 'w" where
  "acquireImage pf w u file =
     (case file of
        Some f \<Rightarrow>
          (Inr (fileBytes f,
                if fileType f \<noteq> [] then fileType f else ''application/octet-stream'',
                ''direct-upload''), w)
      | None \<Rightarrow>
          if truthy (imageUrl u)
          then
            (case fetchImageWithSessionHandling pf w (the (imageUrl u)) 3 of
               (None, n, w') \<Rightarrow>
                 (Inl (Inl ''Cannot read properties of undefined''), w')
             | (Some (FetchFailure err details finalUrl), n, w') \<Rightarrow>
                 if includesStr details ''<!DOCTYPE html'' \<or> includesStr details ''<html''
                 then (Inl (Inr (UploadBotProtection err)), w')
                 else (Inl (Inr (UploadFailure err (Some details) finalUrl)), w')
             | (Some (FetchSuccess imageData ctype), n, w') \<Rightarrow>
                 (Inr (imageData, ctype, ''url-upload''), w'))
          else
            (Inl (Inr (UploadFailure ''Either imageUrl or image file must be provided''
                         None None)), w))"

text \<open>
  \<^verbatim>\<open>processImageUpload(uploadData, imageFile, supabase)\<close>. It returns the result (\<open>Inl\<close>
  for an exception), the writes made to the storage, in order, and the state of the
  world. The handler calls it after the validation, with \<^verbatim>\<open>branch\<close>, \<^verbatim>\<open>date\<close> and
  \<^verbatim>\<open>filename\<close> present; on an absent \<^verbatim>\<open>filename\<close> or \<^verbatim>\<open>branch\<close> the string methods
  throw, and an absent \<^verbatim>\<open>date\<close> prints as \<open>undefined\<close> (a \<^verbatim>\<open>null\<close> one as \<open>null\<close>).
\<close>

definition processImageUpload ::
    "'w platform \<Rightarrow> 'w \<Rightarrow> uploadData \<Rightarrow> imageFile option
       \<Rightarrow> (string + uploadResult) \<times> storageWrite list \<times> 'w" where
  "processImageUpload pf w u file =
     (case acquireImage pf w u file of
        (Inl early, w1) \<Rightarrow> (early, [], w1)
      | (Inr (imageData, contentTypeHeader, uploadMode), w1) \<Rightarrow>
          (case validateImageSize imageData of
             Some sizeError \<Rightarrow> (Inr (UploadFailure sizeError None None), [], w1)
           | None \<Rightarrow>
               (case (filename u, branch u) of
                  (None, _) \<Rightarrow> (Inl ''Cannot read properties of undefined'', [], w1)
                | (Some originalFilename, None) \<Rightarrow>
                    (Inl ''Cannot read properties of undefined'', [], snd (randomUUID pf w1))
                | (Some originalFilename, Some br) \<Rightarrow>
                    (let (uuid, w2) = randomUUID pf w1;
                         finalFilename = generateFinalFilename uuid originalFilename;
                         normalizedBranch = normalize_str br;
                         storagePath =
                           normalizedBranch @ ''/'' @
                           (case date u of Some d \<Rightarrow> d | None \<Rightarrow> ''undefined'') @ ''/'' @
                           finalFilename;
                         (uploadError, w3) =
                           storageUpload pf w2 storagePath imageData contentTypeHeader
                     in case uploadError of
                          Some message \<Rightarrow>
                            (Inr (UploadFailure ''Failed to upload image to storage''
                                    (Some message) None),
                             [(storagePath, imageData, contentTypeHeader)], w3)
                        | None \<Rightarrow>
                            (Inr (UploadSuccess (getPublicUrl pf storagePath) finalFilename
                                    storagePath (length imageData) uploadMode),
                             [(storagePath, imageData, contentTypeHeader)], w3)))))"

section \<open>The webhook function: sending to BuildShip\<close>

text \<open>
  \<^verbatim>\<open>CONFIG.MAX_RETRIES\<close> and \<^verbatim>\<open>CONFIG.BUILDSHIP_TIMEOUT\<close>.
\<close>

definition MAX_RETRIES :: nat where
  "MAX_RETRIES = 2"

definition BUILDSHIP_TIMEOUT :: nat where
  "BUILDSHIP_TIMEOUT = 120000"

text \<open>
  The response of BuildShip, with \<open>None\<close> for a body that \<^verbatim>\<open>text()\<close> fails to read, and
  the error of a \<^verbatim>\<open>fetch\<close> that throws; an attempt cut off by the timeout throws an
  \<open>AbortError\<close>.
\<close>

record relayResponse =
  relayStatus :: nat
  relayStatusText :: string
  relayBody :: "string option"

record fetchError =
  errorName :: string
  errorMessage :: string

text \<open>
  The result of \<^verbatim>\<open>sendToBuildShip\<close>: \<^verbatim>\<open>{success: true, status, response, attempts}\<close> or
  \<^verbatim>\<open>{success: false, status, error, details, attempts}\<close>, where a failure without response
  has neither status nor details. The field \<^verbatim>\<open>duration\<close>, a difference of clock
  readings, is not part of the model.
\<close>

datatype relayResult =
    RelaySuccess nat string nat
  | RelayFailure "nat option" string "string option" nat

text \<open>\<^verbatim>\<open>attempts\<close> of a result.\<close>

fun attempts :: "relayResult \<Rightarrow> nat" where
  "attempts (RelaySuccess st text n) = n"
| "attempts (RelayFailure st err details n) = n"

text \<open>
  The loop of \<^verbatim>\<open>sendToBuildShip\<close>, from the attempt given. \<open>post\<close> is the request to
  BuildShip with the payload built before the loop. The loop returns the result, the
  number of requests made so far (\<open>calls\<close> counts them) and the state of the world. The
  waits between the attempts are not part of the model.
\<close>

function sendLoop ::
    "('w \<Rightarrow> (fetchError + relayResponse) \<times> 'w) \<Rightarrow> nat \<Rightarrow> nat \<Rightarrow> 'w
       \<Rightarrow> relayResult \<times> nat \<times> 'w" where
  "sendLoop post attempt calls w =
     (if attempt \<le> MAX_RETRIES
      then
        (case post w of
           (Inr response, w') \<Rightarrow>
             if 200 \<le> relayStatus response \<and> relayStatus response \<le> 299
             then (RelaySuccess (relayStatus response)
                     (case relayBody response of
                        Some text \<Rightarrow> text
                      | None \<Rightarrow> ''Unable to read response body'')
                     attempt,
                   calls + 1, w')
             else
               (let errorText = (case relayBody response of
                                   Some text \<Rightarrow> text
                                 | None \<Rightarrow> ''Unable to read error response'')
                in if relayStatus response \<ge> 400 \<and> relayStatus response < 500
                      \<and> relayStatus response \<noteq> 429
                   then (RelayFailure (Some (relayStatus response))
                           (''BuildShip client error: '' @ decimal (relayStatus response) @
                              '' '' @ relayStatusText response)
                           (Some errorText) attempt,
                         calls + 1, w')
                   else if attempt < MAX_RETRIES
                   then sendLoop post (attempt + 1) (calls + 1) w'
                   else (RelayFailure (Some (relayStatus response))
                           (''BuildShip error: '' @ decimal (relayStatus response) @
                              '' '' @ relayStatusText response)
                           (Some errorText) attempt,
                         calls + 1, w'))
         | (Inl error, w') \<Rightarrow>
             if errorName error = ''AbortError'' \<or> includesStr (errorMessage error) ''aborted''
             then
               (if attempt < MAX_RETRIES
                then sendLoop post (attempt + 1) (calls + 1) w'
                else (RelayFailure None
                        (''BuildShip timeout after '' @ decimal BUILDSHIP_TIMEOUT @ ''ms'')
                        None attempt,
                      calls + 1, w'))
             else if attempt = MAX_RETRIES
             then (RelayFailure None
                     (''BuildShip request failed: '' @ errorMessage error)
                     None attempt,
                   calls + 1, w')
             else sendLoop post (attempt + 1) (calls + 1) w')
      else (RelayFailure None ''All BuildShip attempts failed'' None MAX_RETRIES, calls, w))"
  by pat_completeness auto
termination
  by (relation "measure (\<lambda>(post, attempt, calls, w). MAX_RETRIES + 1 - attempt)") auto

declare sendLoop.simps [simp del]

definition sendToBuildShip ::
    "('w \<Rightarrow> (fetchError + relayResponse) \<times> 'w) \<Rightarrow> 'w \<Rightarrow> relayResult \<times> nat \<times> 'w" where
  "sendToBuildShip post w = sendLoop post 1 0 w"

section \<open>The webhook function: classification of failures\<close>

text \<open>
  The words of the specification, for the hypotheses of the retry property: a response
  with a status 4xx other than 429 is a terminal failure; a response with status 429 or
  5xx, and a request that throws (a transport error or the timeout), are transient
  failures.
\<close>

definition terminalFailure_spec :: "fetchError + relayResponse \<Rightarrow> bool" where
  "terminalFailure_spec outcome =
     (case outcome of
        Inl e \<Rightarrow> False
      | Inr r \<Rightarrow> 400 \<le> relayStatus r \<and> relayStatus r \<le> 499 \<and> relayStatus r \<noteq> 429)"

definition transientFailure_spec :: "fetchError + relayResponse \<Rightarrow> bool" where
  "transientFailure_spec outcome =
     (case outcome of
        Inl e \<Rightarrow> True
      | Inr r \<Rightarrow> relayStatus r = 429 \<or> (500 \<le> relayStatus r \<and> relayStatus r \<le> 599))"

text \<open>
  The failure that \<^verbatim>\<open>sendToBuildShip\<close> returns when the last attempt allowed fails without
  a client error: it carries the status, the status text and the body of the last
  response, or the message of the last error (for an abort, the timeout), and the number
  of attempts.
\<close>

definition exhaustedFailure :: "fetchError + relayResponse \<Rightarrow> relayResult" where
  "exhaustedFailure outcome =
     (case outcome of
        Inr r \<Rightarrow>
          RelayFailure (Some (relayStatus r))
            (''BuildShip error: '' @ decimal (relayStatus r) @ '' '' @ relayStatusText r)
            (Some (case relayBody r of Some text \<Rightarrow> text | None \<Rightarrow> ''Unable to read error response''))
            MAX_RETRIES
      | Inl e \<Rightarrow>
          if errorName e = ''AbortError'' \<or> includesStr (errorMessage e) ''aborted''
          then RelayFailure None (''BuildShip timeout after '' @ decimal BUILDSHIP_TIMEOUT @ ''ms'') None MAX_RETRIES
          else RelayFailure None (''BuildShip request failed: '' @ errorMessage e) None MAX_RETRIES)"

section \<open>Example inputs\<close>

text \<open>The payload \<^verbatim>\<open>{branch:"main", date:"2024-13-40", filename:"a.txt"}\<close>.\<close>

definition examplePayload :: uploadData where
  "examplePayload =
     \<lparr>branch = Some ''main'', date = Some ''2024-13-40'', filename = Some ''a.txt'',
      imageUrl = None\<rparr>"

text \<open>A webhook payload with a UUID of version 1 as \<^verbatim>\<open>metadataId\<close>, and its storage URL.\<close>

definition exampleUrl :: string where
  "exampleUrl = ''https://abc.supabase.co/storage/v1/object/public/edge-slips/main/2024-01-15/a_1a2b3c4d.jpg''"

definition exampleWebhookPayload :: "string \<rightharpoonup> string" where
  "exampleWebhookPayload =
     map_of [(''public_url'', exampleUrl), (''filename'', ''a_1a2b3c4d.jpg''),
             (''branch'', ''main''), (''date'', ''2024-01-15''),
             (''metadataId'', ''123e4567-e89b-12d3-a456-426614174000'')]"

text \<open>
  The clock readings of a burst of \<open>n\<close> requests, one per millisecond from 200001 ms on.
\<close>

definition burst :: "nat \<Rightarrow> int list" where
  "burst n = map (\<lambda>i. 200001 + int i) [0..<n]"

text \<open>
  The store after client B has checked at 0 ms and at 60000 ms and client A at
  100000 ms.
\<close>

definition sweepStore :: rateLimitStore where
  "sweepStore =
     snd (checkRateLimit 100000 ''A''
       (snd (checkRateLimit 60000 ''B''
         (snd (checkRateLimit 0 ''B'' Map.empty)))))"

text \<open>Two BuildShip endpoints, over a counter of requests: one answers 404, one 503.\<close>

definition notFound :: relayResponse where
  "notFound =
     \<lparr>relayStatus = 404, relayStatusText = ''Not Found'', relayBody = Some ''no such flow''\<rparr>"

definition unavailable :: relayResponse where
  "unavailable =
     \<lparr>relayStatus = 503, relayStatusText = ''Service Unavailable'', relayBody = Some ''busy''\<rparr>"

definition post404 :: "nat \<Rightarrow> (fetchError + relayResponse) \<times> nat" where
  "post404 n = (Inr notFound, n + 1)"

definition post503 :: "nat \<Rightarrow> (fetchError + relayResponse) \<times> nat" where
  "post503 n = (Inr unavailable, n + 1)"

text \<open>
  A platform over a counter of requests: every request is answered by the response
  given, every URL has the origin of the example, the random UUID is fixed, and the
  storage accepts every upload. Two responses: an image that sets a cookie, and an HTML
  challenge page served with status 200.
\<close>

definition pngResponse :: response where
  "pngResponse =
     \<lparr>status = 200, statusText = ''OK'', respUrl = ''https://cdn.example.com/slips/42.png'',
      getSetCookie = Some [''sid=abc123; Path=/''], setCookieHeader = Some ''sid=abc123; Path=/'',
      contentType = Some ''image/png'', location = None, body = ''PNG-bytes''\<rparr>"

definition challengeResponse :: response where
  "challengeResponse =
     \<lparr>status = 200, statusText = ''OK'', respUrl = ''https://cdn.example.com/slips/42.png'',
      getSetCookie = None, setCookieHeader = None,
      contentType = Some ''text/html'', location = None,
      body = ''<html><body>Checking your browser</body></html>''\<rparr>"

definition examplePlatform :: "response \<Rightarrow> nat platform" where
  "examplePlatform r =
     \<lparr>fetch = (\<lambda>n req. (Inr r, n + 1)),
      urlOrigin = (\<lambda>url. Inr ''https://cdn.example.com''),
      urlResolve = (\<lambda>loc url. Inr loc),
      randomUUID = (\<lambda>n. (''123e4567-e89b-42d3-a456-426614174000'', n)),
      storageUpload = (\<lambda>n path bytes ctype. (None, n)),
      getPublicUrl = (\<lambda>path. ''https://abc.supabase.co/storage/v1/object/public/edge-slips/'' @ path)\<rparr>"

definition exampleImageUrl :: string where
  "exampleImageUrl = ''https://cdn.example.com/slips/42.png''"

text \<open>
  Uploads for the examples: a valid payload, the same with an image URL and with the
  branch \<open>!!!\<close>; an empty file, a small file, a file and a response of one byte
  more than 10 MiB, and a response with an empty image.
\<close>

definition validUpload :: uploadData where
  "validUpload =
     \<lparr>branch = Some ''main'', date = Some ''2024-01-15'', filename = Some ''photo.png'',
      imageUrl = None\<rparr>"

definition emptyFile :: imageFile where
  "emptyFile = \<lparr>fileBytes = [], fileType = ''image/png'', fileName = ''photo.png''\<rparr>"

definition hugeFile :: imageFile where
  "hugeFile =
     \<lparr>fileBytes = replicate 10485761 (CHR 0x00), fileType = ''image/png'',
      fileName = ''photo.png''\<rparr>"

definition hugeResponse :: response where
  "hugeResponse = pngResponse\<lparr>body := replicate 10485761 (CHR 0x00)\<rparr>"

definition emptyResponse :: response where
  "emptyResponse = pngResponse\<lparr>body := []\<rparr>"

definition urlUpload :: uploadData where
  "urlUpload = validUpload\<lparr>imageUrl := Some exampleImageUrl\<rparr>"

definition oddBranchUpload :: uploadData where
  "oddBranchUpload = validUpload\<lparr>branch := Some ''!!!''\<rparr>"

definition smallFile :: imageFile where
  "smallFile = \<lparr>fileBytes = ''PNG-bytes'', fileType = ''image/png'', fileName = ''photo.png''\<rparr>"

section \<open>Properties of normalize\<close>

lemma isNormChar_not_space: "isNormChar c \<Longrightarrow> \<not> isSpace c"
  by (auto simp: isNormChar_def isSpace_def isLowerAZ_def isDigit_def code_def)

lemma isNormChar_lowerChar: "isNormChar c \<Longrightarrow> lowerChar c = c"
  by (auto simp: isNormChar_def lowerChar_def isUpperAZ_def isLowerAZ_def isDigit_def code_def)

lemma dropWhile_space_norm: "list_all isNormChar s \<Longrightarrow> dropWhile isSpace s = s"
  by (cases s) (auto simp: isNormChar_not_space)

lemma trim_norm:
  assumes "list_all isNormChar s"
  shows "trim s = s"
proof -
  have "list_all isNormChar (rev s)"
    using assms by (simp add: list_all_iff)
  then have "dropWhile isSpace (rev s) = rev s"
    by (rule dropWhile_space_norm)
  then show ?thesis
    using assms by (simp add: trim_def dropWhile_space_norm)
qed

lemma toLowerCase_norm: "list_all isNormChar s \<Longrightarrow> toLowerCase s = s"
  by (induction s) (auto simp: toLowerCase_def isNormChar_lowerChar)

lemma replaceSpaces_norm: "list_all isNormChar s \<Longrightarrow> replaceSpaces s = s"
  by (induction s) (auto simp: isNormChar_not_space)

lemma filter_norm: "list_all isNormChar s \<Longrightarrow> filter isNormChar s = s"
  by (induction s) auto

lemma normalize_chars: "list_all isNormChar (normalize_str s)"
  by (simp add: normalize_str_def list_all_iff)

lemma normalize_fixed: "list_all isNormChar s \<Longrightarrow> normalize_str s = s"
  by (simp add: normalize_str_def trim_norm toLowerCase_norm replaceSpaces_norm filter_norm)

text \<open>
  Claim C9. \<open>normalize\<close> is idempotent, and every character of its result belongs to
  \<open>[a-z0-9-]\<close>, so that the result matches \<open>^[a-z0-9-]*$\<close>.
\<close>

theorem normalize_idempotent_and_charset:
  "normalize_str (normalize_str s) = normalize_str s \<and> list_all isNormChar (normalize_str s)"
  using normalize_fixed [OF normalize_chars] normalize_chars by blast

section \<open>Properties of the upload validator\<close>

lemmas char_class_defs = isDigit_def isLowerAZ_def isUpperAZ_def isNameChar_def isHex_def
  asciiLower_def code_def char_of_eq_iff

lemma dateRegex_example: "dateRegex ''2024-13-40''"
  by (simp add: dateRegex_def char_class_defs)

lemma pattern_a_txt: "\<not> validFilenamePattern ''a.txt''"
  by (simp add: validFilenamePattern_def imageExtensions_def char_class_defs)

text \<open>
  Claim C5, as the code has it. On the payload
  \<^verbatim>\<open>{branch:"main", date:"2024-13-40", filename:"a.txt"}\<close> the validator returns exactly
  one violation, the one for the filename: the date consists of digits in the shape
  \<open>YYYY-MM-DD\<close>, which is all that \<open>dateRegex\<close> asks for. The validator is a function
  of the payload alone.
\<close>

theorem validateUploadData_example:
  "validateUploadData examplePayload =
     [''Filename format invalid. Only alphanumeric characters, dashes, and underscores allowed with valid image extensions (jpg, jpeg, png, gif, webp).'']
   \<and> dateRegex ''2024-13-40''"
  by (simp add: validateUploadData_def examplePayload_def truthy_def dateRegex_example
      pattern_a_txt)

text \<open>
  Claim C5, as stated, fails: there is one violation, not two, and none about the date.
\<close>

theorem validateUploadData_example_counterexample:
  "length (validateUploadData examplePayload) = 1
   \<and> ''Date must be in YYYY-MM-DD format'' \<notin> set (validateUploadData examplePayload)"
  by (simp add: validateUploadData_def examplePayload_def truthy_def dateRegex_example
      pattern_a_txt)

section \<open>Properties of the final filename\<close>

lemma pattern_a_JPG: "validFilenamePattern ''a.JPG''"
  by (simp add: validFilenamePattern_def imageExtensions_def char_class_defs)

text \<open>
  Claim C4 at the filename \<open>a.JPG\<close>, which the accepted pattern admits. The test for
  the extension ignores case, so the name is not rewritten to \<open>.jpg\<close>; the pattern
  \<^verbatim>\<open>/\.jpg$/\<close> that inserts the suffix does not ignore case, so nothing is inserted.
  The result is the original name, whatever the random UUID: it does not end in
  \<open>.jpg\<close> and carries no suffix.
\<close>

theorem generateFinalFilename_uppercase_JPG:
  "validFilenamePattern ''a.JPG''
   \<and> generateFinalFilename uuid ''a.JPG'' = ''a.JPG''
   \<and> \<not> endsWith (generateFinalFilename uuid ''a.JPG'') ''.jpg''"
  by (simp add: pattern_a_JPG generateFinalFilename_def endsWith_def toLowerCase_def
      lowerChar_def dotJpgPattern_def char_class_defs)

section \<open>Properties of the webhook payload validator\<close>

lemma validatePayload_example:
  "validatePayload (\<lambda>u. u = exampleUrl) (Some exampleWebhookPayload) = []"
  by (simp add: validatePayload_def exampleWebhookPayload_def exampleUrl_def requiredFields_def
      missingField_def truthy_def startsWith_def dateRegex_def validFilenamePattern_def
      imageExtensions_def uuidRegex_def char_class_defs)

text \<open>
  Claim C8, as stated, fails: a payload whose \<^verbatim>\<open>metadataId\<close> is a UUID of version 1
  is accepted without any violation.
\<close>

theorem validatePayload_v1_uuid_counterexample:
  "validatePayload (\<lambda>u. u = exampleUrl) (Some exampleWebhookPayload) = []
   \<and> exampleWebhookPayload ''metadataId'' = Some ''123e4567-e89b-12d3-a456-426614174000''
   \<and> \<not> isUuidV4_spec ''123e4567-e89b-12d3-a456-426614174000''"
  by (simp add: validatePayload_example)
     (simp add: exampleWebhookPayload_def isUuidV4_spec_def)

lemma missingField_in:
  "field \<in> set requiredFields \<Longrightarrow> \<not> truthy (p field) \<Longrightarrow>
   (''Missing required field: '' @ field) \<in> set (validatePayload urlParses (Some p))"
  by (auto simp: validatePayload_def missingField_def)

lemma accepted_metadataId:
  assumes "validatePayload urlParses (Some p) = []"
  shows "\<exists>m. p ''metadataId'' = Some m \<and> uuidRegex m"
proof -
  have t: "truthy (p ''metadataId'')"
    using assms missingField_in [of "''metadataId''" p urlParses]
    by (auto simp: requiredFields_def)
  have "\<not> (truthy (p ''metadataId'') \<and> \<not> uuidRegex (the (p ''metadataId'')))"
    using assms by (auto simp: validatePayload_def split: if_splits)
  with t show ?thesis
    by (cases "p ''metadataId''") (auto simp: truthy_def)
qed

text \<open>
  Claim C8, as the code has it. A required field that is absent or empty is reported as
  missing; a payload is accepted only if its \<^verbatim>\<open>metadataId\<close> has the shape 8-4-4-4-12 of
  hexadecimal digits, of any UUID version, and a \<^verbatim>\<open>metadataId\<close> of another shape is
  reported; a payload that is not an object is reported.
\<close>

theorem validatePayload_required_and_uuid:
  "(field \<in> set requiredFields \<and> \<not> truthy (p field) \<longrightarrow>
      (''Missing required field: '' @ field) \<in> set (validatePayload urlParses (Some p)))
   \<and> (validatePayload urlParses (Some p) = [] \<longrightarrow>
      (\<exists>m. p ''metadataId'' = Some m \<and> uuidRegex m))
   \<and> (truthy (p ''metadataId'') \<and> \<not> uuidRegex (the (p ''metadataId'')) \<longrightarrow>
      ''metadataId must be a valid UUID'' \<in> set (validatePayload urlParses (Some p)))
   \<and> validatePayload urlParses None = [''Payload must be a valid object'']"
  using missingField_in [of field p urlParses] accepted_metadataId [of urlParses p]
  by (auto simp: validatePayload_def)

text \<open>
  The three hypotheses at concrete payloads: the example without its \<^verbatim>\<open>metadataId\<close>, the
  example itself, and the example with a \<^verbatim>\<open>metadataId\<close> that is no UUID.
\<close>

theorem validatePayload_required_and_uuid_witness:
  "''metadataId'' \<in> set requiredFields
   \<and> \<not> truthy ((exampleWebhookPayload(''metadataId'' := None)) ''metadataId'')
   \<and> ''Missing required field: metadataId''
       \<in> set (validatePayload (\<lambda>u. u = exampleUrl) (Some (exampleWebhookPayload(''metadataId'' := None))))
   \<and> validatePayload (\<lambda>u. u = exampleUrl) (Some exampleWebhookPayload) = []
   \<and> (\<exists>m. exampleWebhookPayload ''metadataId'' = Some m \<and> uuidRegex m)
   \<and> truthy ((exampleWebhookPayload(''metadataId'' \<mapsto> ''not-a-uuid'')) ''metadataId'')
   \<and> \<not> uuidRegex ''not-a-uuid''
   \<and> ''metadataId must be a valid UUID''
       \<in> set (validatePayload (\<lambda>u. u = exampleUrl) (Some (exampleWebhookPayload(''metadataId'' \<mapsto> ''not-a-uuid''))))"
proof -
  have a: "''metadataId'' \<in> set requiredFields"
    by (simp add: requiredFields_def)
  have b: "\<not> truthy ((exampleWebhookPayload(''metadataId'' := None)) ''metadataId'')"
    by (simp add: truthy_def)
  have c: "truthy ((exampleWebhookPayload(''metadataId'' \<mapsto> ''not-a-uuid'')) ''metadataId'')"
    by (simp add: truthy_def)
  have d: "\<not> uuidRegex ''not-a-uuid''"
    by (simp add: uuidRegex_def)
  show ?thesis
    using a b c d validatePayload_example
      validatePayload_required_and_uuid
        [of "''metadataId''" "exampleWebhookPayload(''metadataId'' := None)" "\<lambda>u. u = exampleUrl"]
      validatePayload_required_and_uuid
        [of "''metadataId''" exampleWebhookPayload "\<lambda>u. u = exampleUrl"]
      validatePayload_required_and_uuid
        [of "''metadataId''" "exampleWebhookPayload(''metadataId'' \<mapsto> ''not-a-uuid'')" "\<lambda>u. u = exampleUrl"]
    by simp
qed

section \<open>Properties of the rate limiter\<close>

lemma checkRateLimit_denied:
  assumes "store clientIP = Some d"
    and "length (filter (\<lambda>t. now - t < RATE_LIMIT_WINDOW) (requests d)) \<ge> RATE_LIMIT_MAX_REQUESTS"
  shows "checkRateLimit now clientIP store =
           (Denied (hd (filter (\<lambda>t. now - t < RATE_LIMIT_WINDOW) (requests d)) + RATE_LIMIT_WINDOW),
            store(clientIP \<mapsto> d\<lparr>requests := filter (\<lambda>t. now - t < RATE_LIMIT_WINDOW) (requests d)\<rparr>))"
  using assms by (simp add: checkRateLimit_def Let_def)

lemma hd_filter_window:
  assumes "filter (\<lambda>t. now - t < w) ts \<noteq> []"
  shows "now - hd (filter (\<lambda>t. now - t < w) ts) < (w::int)"
proof -
  have "hd (filter (\<lambda>t. now - t < w) ts) \<in> set (filter (\<lambda>t. now - t < w) ts)"
    using assms by (rule hd_in_set)
  then show ?thesis by simp
qed

lemma checkRateLimit_allowed:
  assumes "length (filter (\<lambda>t. now - t < RATE_LIMIT_WINDOW)
             (case store clientIP of Some d \<Rightarrow> requests d | None \<Rightarrow> [])) < RATE_LIMIT_MAX_REQUESTS"
  shows "fst (checkRateLimit now clientIP store) = Allowed"
  using assms by (auto simp: checkRateLimit_def Let_def split: option.splits)

lemma filter_elapsed:
  "list_all (\<lambda>t. later - t \<ge> w) ts \<Longrightarrow> filter (\<lambda>t. P t \<and> later - t < (w::int)) ts = []"
  by (induction ts) auto

text \<open>
  A check that finds \<open>RATE_LIMIT_MAX_REQUESTS\<close> stored timestamps inside the window is
  denied, with a reset time later than \<open>now\<close>; once the window has elapsed since every
  stored timestamp, a check of this client is admitted.
\<close>

lemma checkRateLimit_full_entry:
  assumes "store clientIP = Some d"
    and "length (filter (\<lambda>t. now - t < RATE_LIMIT_WINDOW) (requests d)) = RATE_LIMIT_MAX_REQUESTS"
  shows "\<exists>reset store'.
           checkRateLimit now clientIP store = (Denied reset, store')
           \<and> reset = hd (filter (\<lambda>t. now - t < RATE_LIMIT_WINDOW) (requests d)) + RATE_LIMIT_WINDOW
           \<and> reset - now > 0
           \<and> (\<forall>later store''.
                 store'' clientIP = store' clientIP
                 \<and> list_all (\<lambda>t. later - t \<ge> RATE_LIMIT_WINDOW) (requests d)
                 \<longrightarrow> fst (checkRateLimit later clientIP store'') = Allowed)"
proof -
  let ?kept = "filter (\<lambda>t. now - t < RATE_LIMIT_WINDOW) (requests d)"
  let ?store' = "store(clientIP \<mapsto> d\<lparr>requests := ?kept\<rparr>)"
  have den: "checkRateLimit now clientIP store = (Denied (hd ?kept + RATE_LIMIT_WINDOW), ?store')"
    using assms by (simp add: checkRateLimit_denied)
  have "?kept \<noteq> []"
    using assms(2) by (auto simp: RATE_LIMIT_MAX_REQUESTS_def)
  then have pos: "hd ?kept + RATE_LIMIT_WINDOW - now > 0"
    using hd_filter_window [of now RATE_LIMIT_WINDOW "requests d"] by simp
  have later: "fst (checkRateLimit later clientIP store'') = Allowed"
    if "store'' clientIP = ?store' clientIP"
      and "list_all (\<lambda>t. later - t \<ge> RATE_LIMIT_WINDOW) (requests d)"
    for later store''
  proof (rule checkRateLimit_allowed)
    show "length (filter (\<lambda>t. later - t < RATE_LIMIT_WINDOW)
            (case store'' clientIP of Some d \<Rightarrow> requests d | None \<Rightarrow> [])) < RATE_LIMIT_MAX_REQUESTS"
      using that by (simp add: filter_elapsed RATE_LIMIT_MAX_REQUESTS_def)
  qed
  show ?thesis
    using den pos later by auto
qed

lemma sweepStore_check1:
  "checkRateLimit 0 ''B'' Map.empty =
     (Allowed, [''B'' \<mapsto> \<lparr>requests = [0], lastCleanup = 0\<rparr>])"
  by (simp add: checkRateLimit_def Let_def RATE_LIMIT_WINDOW_def RATE_LIMIT_MAX_REQUESTS_def)

lemma sweepStore_check2:
  "checkRateLimit 60000 ''B'' [''B'' \<mapsto> \<lparr>requests = [0], lastCleanup = 0\<rparr>] =
     (Allowed, [''B'' \<mapsto> \<lparr>requests = [60000], lastCleanup = 0\<rparr>])"
  by (simp add: checkRateLimit_def Let_def RATE_LIMIT_WINDOW_def RATE_LIMIT_MAX_REQUESTS_def)

lemma sweepStore_check3:
  "checkRateLimit 100000 ''A'' [''B'' \<mapsto> \<lparr>requests = [60000], lastCleanup = 0\<rparr>] =
     (Allowed, [''B'' \<mapsto> \<lparr>requests = [60000], lastCleanup = 0\<rparr>,
                ''A'' \<mapsto> \<lparr>requests = [100000], lastCleanup = 100000\<rparr>])"
  by (simp add: checkRateLimit_def Let_def RATE_LIMIT_WINDOW_def RATE_LIMIT_MAX_REQUESTS_def)

lemma sweepStore_eq:
  "sweepStore =
     [''B'' \<mapsto> \<lparr>requests = [60000], lastCleanup = 0\<rparr>,
      ''A'' \<mapsto> \<lparr>requests = [100000], lastCleanup = 100000\<rparr>]"
  by (simp add: sweepStore_def sweepStore_check1 sweepStore_check2 sweepStore_check3)

lemma sweepStore_check4:
  "checkRateLimit 170000 ''A'' sweepStore =
     (Allowed, [''A'' \<mapsto> \<lparr>requests = [170000], lastCleanup = 170000\<rparr>])"
  apply (simp add: checkRateLimit_def sweepStore_eq Let_def RATE_LIMIT_WINDOW_def
      RATE_LIMIT_MAX_REQUESTS_def)
  apply (rule ext)
  apply (simp add: sweep_def RATE_LIMIT_WINDOW_def)
  done

lemma checkRateLimit_new_key:
  "store clientIP = None \<Longrightarrow>
   checkRateLimit now clientIP store =
     (Allowed, store(clientIP \<mapsto> \<lparr>requests = [now], lastCleanup = now\<rparr>))"
  by (simp add: checkRateLimit_def Let_def RATE_LIMIT_WINDOW_def RATE_LIMIT_MAX_REQUESTS_def)

lemma checkRateLimit_no_sweep:
  assumes "store clientIP = Some d"
    and "length (filter (\<lambda>t. now - t < RATE_LIMIT_WINDOW) (requests d)) < RATE_LIMIT_MAX_REQUESTS"
    and "\<not> now - lastCleanup d > RATE_LIMIT_WINDOW"
  shows "checkRateLimit now clientIP store =
     (Allowed, store(clientIP \<mapsto>
        d\<lparr>requests := filter (\<lambda>t. now - t < RATE_LIMIT_WINDOW) (requests d) @ [now]\<rparr>))"
  using assms by (simp add: checkRateLimit_def Let_def)

lemma checkRateLimit_with_sweep:
  assumes "store clientIP = Some d"
    and "length (filter (\<lambda>t. now - t < RATE_LIMIT_WINDOW) (requests d)) < RATE_LIMIT_MAX_REQUESTS"
    and "now - lastCleanup d > RATE_LIMIT_WINDOW"
    and "ip \<noteq> clientIP"
  shows "fst (checkRateLimit now clientIP store) = Allowed"
    and "snd (checkRateLimit now clientIP store) ip = sweep now store ip"
  using assms by (simp_all add: checkRateLimit_def Let_def sweep_def split: option.splits)

lemma checkTimes_append:
  "checkTimes k (xs @ ys) s =
     (fst (checkTimes k xs s) @ fst (checkTimes k ys (snd (checkTimes k xs s))),
      snd (checkTimes k ys (snd (checkTimes k xs s))))"
  by (induction xs arbitrary: s) (auto split: prod.splits)

lemma checkRateLimit_self_evicted:
  assumes "store clientIP = Some d"
    and "length (filter (\<lambda>t. now - t < RATE_LIMIT_WINDOW) (requests d)) < RATE_LIMIT_MAX_REQUESTS"
    and "now - lastCleanup d > RATE_LIMIT_WINDOW * 2"
  shows "fst (checkRateLimit now clientIP store) = Allowed"
    and "snd (checkRateLimit now clientIP store) clientIP = None"
  using assms
  by (simp_all add: checkRateLimit_def Let_def sweep_def RATE_LIMIT_WINDOW_def)

lemma idle_return:
  "checkTimes ''10.0.0.1'' [0, 200000] Map.empty = ([Allowed, Allowed], Map.empty)"
proof -
  have 1: "checkRateLimit 0 ''10.0.0.1'' Map.empty =
      (Allowed, [''10.0.0.1'' \<mapsto> \<lparr>requests = [0], lastCleanup = 0\<rparr>])"
    by (simp add: checkRateLimit_new_key)
  have 2: "checkRateLimit 200000 ''10.0.0.1'' [''10.0.0.1'' \<mapsto> \<lparr>requests = [0], lastCleanup = 0\<rparr>] =
      (Allowed, Map.empty)"
    apply (simp add: checkRateLimit_def Let_def RATE_LIMIT_WINDOW_def RATE_LIMIT_MAX_REQUESTS_def)
    apply (rule ext)
    apply (simp add: sweep_def RATE_LIMIT_WINDOW_def)
    done
  show ?thesis
    by (simp add: 1 2)
qed

lemma burst_kept:
  assumes "now < 260001"
  shows "filter (\<lambda>t. now - t < RATE_LIMIT_WINDOW) (burst n) = burst n"
  using assms by (auto simp: burst_def RATE_LIMIT_WINDOW_def filter_id_conv)

lemma burst_Suc: "burst (Suc n) = burst n @ [200001 + int n]"
  by (simp add: burst_def)

lemma burst_admitted:
  assumes "n < 30"
  shows "checkTimes ''10.0.0.1'' (burst (Suc n)) Map.empty =
     (replicate (Suc n) Allowed,
      [''10.0.0.1'' \<mapsto> \<lparr>requests = burst (Suc n), lastCleanup = 200001\<rparr>])"
  using assms
proof (induction n)
  case 0
  show ?case
    by (simp add: burst_def checkRateLimit_new_key fun_eq_iff)
next
  case (Suc n)
  let ?s = "[''10.0.0.1'' \<mapsto> \<lparr>requests = burst (Suc n), lastCleanup = 200001\<rparr>]"
  have "n < 30"
    using Suc.prems by simp
  then have ih: "checkTimes ''10.0.0.1'' (burst (Suc n)) Map.empty = (replicate (Suc n) Allowed, ?s)"
    by (rule Suc.IH)
  have kept: "filter (\<lambda>t. 200001 + int (Suc n) - t < RATE_LIMIT_WINDOW) (burst (Suc n)) = burst (Suc n)"
    using Suc.prems by (intro burst_kept) simp
  have step: "checkRateLimit (200001 + int (Suc n)) ''10.0.0.1'' ?s =
      (Allowed, [''10.0.0.1'' \<mapsto> \<lparr>requests = burst (Suc (Suc n)), lastCleanup = 200001\<rparr>])"
    using checkRateLimit_no_sweep [of ?s "''10.0.0.1''"
        "\<lparr>requests = burst (Suc n), lastCleanup = 200001\<rparr>" "200001 + int (Suc n)"]
      Suc.prems kept
    by (simp add: burst_Suc [of "Suc n"] RATE_LIMIT_MAX_REQUESTS_def RATE_LIMIT_WINDOW_def burst_def)
  have step': "checkRateLimit (200002 + int n) ''10.0.0.1'' ?s =
      (Allowed, [''10.0.0.1'' \<mapsto> \<lparr>requests = burst (Suc (Suc n)), lastCleanup = 200001\<rparr>])"
    using step by simp
  show ?case
    by (subst burst_Suc) (simp add: checkTimes_append ih step' replicate_append_same)
qed

lemma burst_denied:
  "checkRateLimit 200031 ''10.0.0.1''
     [''10.0.0.1'' \<mapsto> \<lparr>requests = burst 30, lastCleanup = 200001\<rparr>] =
     (Denied 260001, [''10.0.0.1'' \<mapsto> \<lparr>requests = burst 30, lastCleanup = 200001\<rparr>])"
proof -
  have kept: "filter (\<lambda>t. 200031 - t < RATE_LIMIT_WINDOW) (burst 30) = burst 30"
    by (intro burst_kept) simp
  have hd: "hd (burst 30) = 200001"
    by (simp add: burst_def hd_map)
  have len: "length (burst 30) = 30"
    by (simp add: burst_def)
  define d where "d = \<lparr>requests = burst 30, lastCleanup = 200001\<rparr>"
  have rq: "requests d = burst 30"
    by (simp add: d_def)
  have "checkRateLimit 200031 ''10.0.0.1'' [''10.0.0.1'' \<mapsto> d] =
      (Denied (hd (filter (\<lambda>t. 200031 - t < RATE_LIMIT_WINDOW) (requests d)) + RATE_LIMIT_WINDOW),
       [''10.0.0.1'' \<mapsto> d]
         (''10.0.0.1'' \<mapsto>
            d\<lparr>requests := filter (\<lambda>t. 200031 - t < RATE_LIMIT_WINDOW) (requests d)\<rparr>))"
    by (rule checkRateLimit_denied) (simp_all add: rq kept len RATE_LIMIT_MAX_REQUESTS_def)
  then show ?thesis
    unfolding rq kept hd by (simp add: d_def RATE_LIMIT_WINDOW_def)
qed

text \<open>
  Claim C6 at a client that comes back after more than two windows: a request at 0 ms,
  then requests at 200000 ms and at each of the thirty milliseconds that follow. The check
  at 200000 ms is admitted, and its own sweep deletes the entry of the client together
  with the timestamp just pushed. So all of the 31 checks from 200000 ms to 200030 ms,
  which lie within one window, are admitted, one more than
  \<open>RATE_LIMIT_MAX_REQUESTS\<close>; the store then holds thirty timestamps, and the first
  check to be denied is the one at 200031 ms.
\<close>

theorem checkRateLimit_burst_after_idle:
  "checkTimes ''10.0.0.1'' (0 # 200000 # burst 30) Map.empty =
     (replicate 32 Allowed,
      [''10.0.0.1'' \<mapsto> \<lparr>requests = burst 30, lastCleanup = 200001\<rparr>])
   \<and> length (200000 # burst 30) = RATE_LIMIT_MAX_REQUESTS + 1
   \<and> list_all (\<lambda>t. 200000 \<le> t \<and> t - 200000 < RATE_LIMIT_WINDOW) (200000 # burst 30)
   \<and> fst (checkRateLimit 200031 ''10.0.0.1''
            (snd (checkTimes ''10.0.0.1'' (0 # 200000 # burst 30) Map.empty))) = Denied 260001"
proof -
  have run: "checkTimes ''10.0.0.1'' (0 # 200000 # burst 30) Map.empty =
     (replicate 32 Allowed,
      [''10.0.0.1'' \<mapsto> \<lparr>requests = burst 30, lastCleanup = 200001\<rparr>])"
  proof -
    have "checkTimes ''10.0.0.1'' ([0, 200000] @ burst (Suc 29)) Map.empty =
        ([Allowed, Allowed] @ replicate (Suc 29) Allowed,
         [''10.0.0.1'' \<mapsto> \<lparr>requests = burst (Suc 29), lastCleanup = 200001\<rparr>])"
      by (simp only: checkTimes_append idle_return burst_admitted [of 29] fst_conv snd_conv)
    moreover have "[Allowed, Allowed] @ replicate (Suc 29) Allowed = replicate 32 Allowed"
      by (simp add: eval_nat_numeral)
    moreover have "Suc 29 = 30"
      by simp
    ultimately show ?thesis
      by simp
  qed
  have len: "length (200000 # burst 30) = RATE_LIMIT_MAX_REQUESTS + 1"
    by (simp add: burst_def RATE_LIMIT_MAX_REQUESTS_def)
  have win: "list_all (\<lambda>t. 200000 \<le> t \<and> t - 200000 < RATE_LIMIT_WINDOW) (200000 # burst 30)"
    by (auto simp: burst_def RATE_LIMIT_WINDOW_def list_all_iff)
  from run len win burst_denied show ?thesis
    by simp
qed

text \<open>
  Claim C7, as the code has it. For every other client \<open>ip\<close>: the sweep runs exactly
  when the check is admitted and the entry of the current client was last cleaned more
  than one window ago, and it then deletes the entry of \<open>ip\<close> exactly when its
  \<^verbatim>\<open>lastCleanup\<close> is more than two windows old; otherwise the entry of \<open>ip\<close> is left
  as it was.
\<close>

theorem checkRateLimit_sweep:
  assumes "ip \<noteq> clientIP"
  shows "snd (checkRateLimit now clientIP store) ip =
     (if fst (checkRateLimit now clientIP store) = Allowed
         \<and> (\<exists>d. store clientIP = Some d \<and> now - lastCleanup d > RATE_LIMIT_WINDOW)
      then (case store ip of
              None \<Rightarrow> None
            | Some data \<Rightarrow>
                if now - lastCleanup data > RATE_LIMIT_WINDOW * 2 then None else Some data)
      else store ip)"
proof (cases "store clientIP")
  case None
  then show ?thesis
    using assms by (simp add: checkRateLimit_new_key)
next
  case (Some d)
  let ?kept = "filter (\<lambda>t. now - t < RATE_LIMIT_WINDOW) (requests d)"
  show ?thesis
  proof (cases "length ?kept \<ge> RATE_LIMIT_MAX_REQUESTS")
    case True
    then show ?thesis
      using Some assms by (simp add: checkRateLimit_denied)
  next
    case False
    then have less: "length ?kept < RATE_LIMIT_MAX_REQUESTS"
      by simp
    show ?thesis
    proof (cases "now - lastCleanup d > RATE_LIMIT_WINDOW")
      case True
      then show ?thesis
        using checkRateLimit_with_sweep [of store clientIP d now ip] Some less True assms
        by (simp add: sweep_def)
    next
      case False
      then show ?thesis
        using checkRateLimit_no_sweep [of store clientIP d now] Some less False assms by simp
    qed
  qed
qed

text \<open>
  The hypothesis at two clients: the check of A at 170000 ms sweeps B away, the check
  of A at 150000 ms leaves B in place.
\<close>

theorem checkRateLimit_sweep_witness:
  "''B'' \<noteq> ''A''
   \<and> snd (checkRateLimit 170000 ''A'' sweepStore) ''B'' = None
   \<and> snd (checkRateLimit 150000 ''A'' sweepStore) ''B'' = sweepStore ''B''"
proof -
  have ne: "''B'' \<noteq> ''A''"
    by simp
  have swept: "fst (checkRateLimit 170000 ''A'' sweepStore) = Allowed
      \<and> (\<exists>d. sweepStore ''A'' = Some d \<and> 170000 - lastCleanup d > RATE_LIMIT_WINDOW)"
    by (simp add: sweepStore_check4) (simp add: sweepStore_eq RATE_LIMIT_WINDOW_def)
  have old: "(case sweepStore ''B'' of
                None \<Rightarrow> None
              | Some data \<Rightarrow>
                  if 170000 - lastCleanup data > RATE_LIMIT_WINDOW * 2 then None else Some data)
             = None"
    by (simp add: sweepStore_eq RATE_LIMIT_WINDOW_def)
  have unswept: "\<not> (fst (checkRateLimit 150000 ''A'' sweepStore) = Allowed
      \<and> (\<exists>d. sweepStore ''A'' = Some d \<and> 150000 - lastCleanup d > RATE_LIMIT_WINDOW))"
    by (simp add: sweepStore_eq RATE_LIMIT_WINDOW_def)
  have a: "snd (checkRateLimit 170000 ''A'' sweepStore) ''B'' = None"
    using checkRateLimit_sweep [OF ne, of 170000 sweepStore] swept old
    by simp
  have b: "snd (checkRateLimit 150000 ''A'' sweepStore) ''B'' = sweepStore ''B''"
    using checkRateLimit_sweep [OF ne, of 150000 sweepStore] unswept
    by simp
  from ne a b show ?thesis
    by blast
qed

text \<open>
  Claim C7, as stated, fails. Client A was last cleaned 70000 ms before its check, which
  is less than two windows, and the last admission of client B is 110000 ms old, which
  is less than two windows too; still the check of A sweeps, and evicts B.
\<close>

theorem checkRateLimit_sweep_counterexample:
  "sweepStore ''A'' = Some \<lparr>requests = [100000], lastCleanup = 100000\<rparr>
   \<and> sweepStore ''B'' = Some \<lparr>requests = [60000], lastCleanup = 0\<rparr>
   \<and> \<not> (170000 - 100000 > RATE_LIMIT_WINDOW * 2)
   \<and> \<not> (170000 - 60000 > RATE_LIMIT_WINDOW * 2)
   \<and> fst (checkRateLimit 170000 ''A'' sweepStore) = Allowed
   \<and> snd (checkRateLimit 170000 ''A'' sweepStore) ''B'' = None"
  by (simp add: sweepStore_check4) (simp add: sweepStore_eq RATE_LIMIT_WINDOW_def)

section \<open>Properties of the relay to BuildShip\<close>

lemma sendLoop_terminal:
  assumes "post w = (Inr r, w')"
    and "400 \<le> relayStatus r" "relayStatus r \<le> 499" "relayStatus r \<noteq> 429"
    and "attempt \<le> MAX_RETRIES"
  shows "sendLoop post attempt calls w =
     (RelayFailure (Some (relayStatus r))
        (''BuildShip client error: '' @ decimal (relayStatus r) @ '' '' @ relayStatusText r)
        (Some (case relayBody r of Some text \<Rightarrow> text | None \<Rightarrow> ''Unable to read error response''))
        attempt, calls + 1, w')"
  using assms by (subst sendLoop.simps) (simp add: Let_def)

lemma sendLoop_last_transient:
  assumes "transientFailure_spec (fst (post w))"
  shows "sendLoop post MAX_RETRIES calls w = (exhaustedFailure (fst (post w)), calls + 1, snd (post w))"
proof (cases "post w")
  case (Pair outcome w')
  show ?thesis
  proof (cases outcome)
    case (Inl e)
    with Pair show ?thesis
      by (subst sendLoop.simps) (simp add: exhaustedFailure_def)
  next
    case (Inr r)
    with Pair assms show ?thesis
      by (subst sendLoop.simps) (auto simp: exhaustedFailure_def transientFailure_spec_def Let_def)
  qed
qed

lemma sendLoop_retry_transient:
  assumes "transientFailure_spec (fst (post w))" and "attempt < MAX_RETRIES"
  shows "sendLoop post attempt calls w = sendLoop post (attempt + 1) (calls + 1) (snd (post w))"
proof (cases "post w")
  case (Pair outcome w')
  show ?thesis
  proof (cases outcome)
    case (Inl e)
    with Pair assms(2) show ?thesis
      by (subst sendLoop.simps) simp
  next
    case (Inr r)
    with Pair assms show ?thesis
      by (subst sendLoop.simps) (auto simp: transientFailure_spec_def Let_def)
  qed
qed

text \<open>
  Claim C2. When the first request is answered by a client error 4xx other than 429,
  \<^verbatim>\<open>sendToBuildShip\<close> returns that failure with \<^verbatim>\<open>attempts\<close> 1 after one request. When the
  first and the second request both fail transiently, it makes exactly
  \<open>MAX_RETRIES\<close> requests and returns the failure of the last one, with \<^verbatim>\<open>attempts\<close>
  equal to \<open>MAX_RETRIES\<close>.
\<close>

theorem sendToBuildShip_retry:
  "(post w = (Inr r, w') \<and> terminalFailure_spec (Inr r) \<longrightarrow>
      sendToBuildShip post w =
        (RelayFailure (Some (relayStatus r))
           (''BuildShip client error: '' @ decimal (relayStatus r) @ '' '' @ relayStatusText r)
           (Some (case relayBody r of
                    Some text \<Rightarrow> text
                  | None \<Rightarrow> ''Unable to read error response''))
           1,
         1, w'))
   \<and> (transientFailure_spec (fst (post w))
        \<and> transientFailure_spec (fst (post (snd (post w)))) \<longrightarrow>
      sendToBuildShip post w =
        (exhaustedFailure (fst (post (snd (post w)))), MAX_RETRIES, snd (post (snd (post w))))
      \<and> attempts (exhaustedFailure (fst (post (snd (post w))))) = MAX_RETRIES)"
proof (intro conjI impI)
  assume t: "post w = (Inr r, w') \<and> terminalFailure_spec (Inr r)"
  then have "400 \<le> relayStatus r" "relayStatus r \<le> 499" "relayStatus r \<noteq> 429"
    by (simp_all add: terminalFailure_spec_def)
  with t show "sendToBuildShip post w =
        (RelayFailure (Some (relayStatus r))
           (''BuildShip client error: '' @ decimal (relayStatus r) @ '' '' @ relayStatusText r)
           (Some (case relayBody r of
                    Some text \<Rightarrow> text
                  | None \<Rightarrow> ''Unable to read error response''))
           1,
         1, w')"
    using sendLoop_terminal [of post w r w' 1 0]
    by (simp add: sendToBuildShip_def MAX_RETRIES_def)
next
  assume a: "transientFailure_spec (fst (post w))
      \<and> transientFailure_spec (fst (post (snd (post w))))"
  have "sendLoop post 1 0 w = sendLoop post 2 1 (snd (post w))"
    using a sendLoop_retry_transient [of post w 1 0]
    by (simp add: MAX_RETRIES_def numeral_2_eq_2)
  also have "\<dots> = (exhaustedFailure (fst (post (snd (post w)))), 2, snd (post (snd (post w))))"
    using a sendLoop_last_transient [of post "snd (post w)" 1]
    by (simp add: MAX_RETRIES_def numeral_2_eq_2)
  finally show "sendToBuildShip post w =
        (exhaustedFailure (fst (post (snd (post w)))), MAX_RETRIES, snd (post (snd (post w))))"
    by (simp add: sendToBuildShip_def MAX_RETRIES_def)
next
  show "attempts (exhaustedFailure (fst (post (snd (post w))))) = MAX_RETRIES"
    by (simp add: exhaustedFailure_def split: sum.splits)
qed

lemma decimal_404: "decimal 404 = ''404''"
  by code_simp

lemma decimal_503: "decimal 503 = ''503''"
  by code_simp

text \<open>
  The hypotheses at an endpoint that always answers 404 and at one that always answers
  503.
\<close>

theorem sendToBuildShip_retry_witness:
  "post404 0 = (Inr notFound, 1) \<and> terminalFailure_spec (Inr notFound)
   \<and> sendToBuildShip post404 0 =
       (RelayFailure (Some 404) ''BuildShip client error: 404 Not Found'' (Some ''no such flow'') 1,
        1, 1)
   \<and> transientFailure_spec (fst (post503 0))
   \<and> transientFailure_spec (fst (post503 (snd (post503 0))))
   \<and> sendToBuildShip post503 0 =
       (RelayFailure (Some 503) ''BuildShip error: 503 Service Unavailable'' (Some ''busy'') 2,
        2, 2)"
proof -
  have a: "post404 0 = (Inr notFound, 1) \<and> terminalFailure_spec (Inr notFound)"
    by (simp add: post404_def notFound_def terminalFailure_spec_def)
  have b: "transientFailure_spec (fst (post503 0))
      \<and> transientFailure_spec (fst (post503 (snd (post503 0))))"
    by (simp add: post503_def unavailable_def transientFailure_spec_def)
  have c: "exhaustedFailure (fst (post503 (snd (post503 0)))) =
      RelayFailure (Some 503) ''BuildShip error: 503 Service Unavailable'' (Some ''busy'') 2"
    by (simp add: post503_def unavailable_def exhaustedFailure_def decimal_503 MAX_RETRIES_def)
  have d: "snd (post503 (snd (post503 0))) = 2"
    by (simp add: post503_def)
  from a have e: "sendToBuildShip post404 0 =
       (RelayFailure (Some 404) ''BuildShip client error: 404 Not Found'' (Some ''no such flow'') 1,
        1, 1)"
    using sendToBuildShip_retry [of post404 0 notFound 1]
    by (simp add: notFound_def decimal_404)
  from b have f: "sendToBuildShip post503 0 =
       (RelayFailure (Some 503) ''BuildShip error: 503 Service Unavailable'' (Some ''busy'') 2,
        2, 2)"
    using sendToBuildShip_retry [of post503 0]
    by (simp add: c d MAX_RETRIES_def)
  from a b e f show ?thesis
    by blast
qed

section \<open>Properties of the session fetcher\<close>

lemma handleFinalResponse_image:
  assumes "ok r" and "isImageType (contentType r)"
  shows "handleFinalResponse attempt maxRetries r =
           Inr (Some (FetchSuccess (body r) (the (contentType r))))"
  using assms by (simp add: handleFinalResponse_def)

lemma handleFinalResponse_html:
  assumes "ok r" and "\<not> isImageType (contentType r)"
    and "includesStr (body r) ''<!DOCTYPE html'' \<or> includesStr (body r) ''<html''"
  shows "handleFinalResponse attempt maxRetries r =
           (if attempt = maxRetries
            then Inr (Some (FetchFailure
                    ''Unable to bypass bot protection after multiple attempts''
                    (take 300 (body r)) (Some (maskSensitiveData (respUrl r)))))
            else Inr None)"
  using assms by (simp add: handleFinalResponse_def Let_def)

lemma handleFinalResponse_failure_last:
  "handleFinalResponse attempt maxRetries r = Inr (Some (FetchFailure e d u)) \<Longrightarrow>
   attempt = maxRetries"
  by (simp add: handleFinalResponse_def Let_def split: if_splits)

lemma catchBlock_last:
  "catchBlock attempt maxRetries e = Some x \<Longrightarrow> attempt = maxRetries"
  by (simp add: catchBlock_def split: if_splits)

lemma attemptBody_failure_last:
  assumes "attemptBody pf w url attempt maxRetries = (Some (FetchFailure e d u), w')"
  shows "attempt = maxRetries"
proof (cases "attemptSteps pf w url")
  case (Pair res w1)
  show ?thesis
  proof (cases res)
    case (Inl err)
    with Pair assms show ?thesis
      by (auto simp: attemptBody_def dest: catchBlock_last)
  next
    case (Inr r)
    show ?thesis
    proof (cases "handleFinalResponse attempt maxRetries r")
      case (Inl err)
      with Pair Inr assms show ?thesis
        by (auto simp: attemptBody_def dest: catchBlock_last)
    next
      case hr: (Inr out)
      with Pair Inr assms show ?thesis
        by (auto simp: attemptBody_def dest: handleFinalResponse_failure_last)
    qed
  qed
qed

lemma fetchLoop_failure_last:
  "fetchLoop pf url maxRetries attempt w = (Some (FetchFailure e d u), n, w') \<Longrightarrow>
   n = maxRetries"
proof (induction pf url maxRetries attempt w rule: fetchLoop.induct)
  case (1 pf url maxRetries attempt w)
  show ?case
  proof (cases "attempt \<le> maxRetries")
    case False
    with "1.prems" show ?thesis
      by (simp add: fetchLoop.simps [of pf url maxRetries attempt w])
  next
    case True
    obtain out w1 where b: "attemptBody pf w url attempt maxRetries = (out, w1)"
      by (cases "attemptBody pf w url attempt maxRetries")
    show ?thesis
    proof (cases out)
      case None
      with True b "1.prems" have
        "fetchLoop pf url maxRetries (attempt + 1) w1 = (Some (FetchFailure e d u), n, w')"
        by (simp add: fetchLoop.simps [of pf url maxRetries attempt w])
      with "1.IH" [OF True b [symmetric]] None show ?thesis
        by simp
    next
      case (Some x)
      with True b "1.prems" have "x = FetchFailure e d u" and "n = attempt" and "w1 = w'"
        by (simp_all add: fetchLoop.simps [of pf url maxRetries attempt w])
      with Some b attemptBody_failure_last [of pf w url attempt maxRetries e d u w'] show ?thesis
        by simp
    qed
  qed
qed

lemma fetchLoop_image:
  assumes "attemptSteps pf w url = (Inr r, w')" and "ok r" and "isImageType (contentType r)"
    and "attempt \<le> maxRetries"
  shows "fetchLoop pf url maxRetries attempt w =
           (Some (FetchSuccess (body r) (the (contentType r))), attempt, w')"
  using assms
  by (simp add: fetchLoop.simps [of pf url maxRetries attempt w] attemptBody_def
      handleFinalResponse_image)

lemma attemptBody_html:
  assumes "attemptSteps pf w url = (Inr r, w')" and "ok r" and "\<not> isImageType (contentType r)"
    and "includesStr (body r) ''<!DOCTYPE html'' \<or> includesStr (body r) ''<html''"
  shows "attemptBody pf w url attempt maxRetries =
           (if attempt = maxRetries
            then Some (FetchFailure ''Unable to bypass bot protection after multiple attempts''
                    (take 300 (body r)) (Some (maskSensitiveData (respUrl r))))
            else None, w')"
  using assms by (simp add: attemptBody_def handleFinalResponse_html)

lemma fetchLoop_html:
  assumes h: "\<forall>v. \<exists>r v'. attemptSteps pf v url = (Inr r, v') \<and> ok r
                \<and> \<not> isImageType (contentType r)
                \<and> (includesStr (body r) ''<!DOCTYPE html'' \<or> includesStr (body r) ''<html'')"
    and le: "attempt \<le> maxRetries"
  shows "\<exists>d u w'. fetchLoop pf url maxRetries attempt w =
           (Some (FetchFailure ''Unable to bypass bot protection after multiple attempts'' d u),
            maxRetries, w')"
  using le
proof (induction "maxRetries - attempt" arbitrary: attempt w)
  case 0
  then have eq: "attempt = maxRetries"
    by simp
  from h obtain r v' where r: "attemptSteps pf w url = (Inr r, v')" "ok r"
      "\<not> isImageType (contentType r)"
      "includesStr (body r) ''<!DOCTYPE html'' \<or> includesStr (body r) ''<html''"
    by blast
  have b: "attemptBody pf w url maxRetries maxRetries =
      (Some (FetchFailure ''Unable to bypass bot protection after multiple attempts''
         (take 300 (body r)) (Some (maskSensitiveData (respUrl r)))), v')"
    using attemptBody_html [OF r, of maxRetries maxRetries] by simp
  show ?case
    unfolding eq by (simp add: fetchLoop.simps [of pf url maxRetries maxRetries w] b)
next
  case (Suc k)
  then have lt: "attempt < maxRetries" and k: "k = maxRetries - (attempt + 1)"
    and le': "attempt + 1 \<le> maxRetries"
    by simp_all
  from h obtain r v' where r: "attemptSteps pf w url = (Inr r, v')" "ok r"
      "\<not> isImageType (contentType r)"
      "includesStr (body r) ''<!DOCTYPE html'' \<or> includesStr (body r) ''<html''"
    by blast
  have "fetchLoop pf url maxRetries attempt w = fetchLoop pf url maxRetries (attempt + 1) v'"
    using attemptBody_html [OF r, of attempt maxRetries] lt
    by (simp add: fetchLoop.simps [of pf url maxRetries attempt w])
  with Suc.hyps(1) [OF k le', of v'] show ?case
    by simp
qed

text \<open>
  Claim C1. Whenever the final response of an attempt has a status 2xx and a content
  type that starts with \<open>image/\<close>, that attempt returns the success with the body and
  the content type, whatever the earlier steps and their cookies were. The failure for
  bot protection is returned by the attempt number \<open>maxRetries\<close> and by no earlier one;
  and when the final response of every attempt has a status 2xx, is no image and
  contains \<open><!DOCTYPE html\<close> or \<open><html\<close>, this failure is what the fetcher returns, at
  attempt \<open>maxRetries\<close>.
\<close>

theorem fetchImageWithSessionHandling_outcomes:
  "(attemptSteps pf w url = (Inr r, w') \<and> ok r \<and> isImageType (contentType r)
      \<and> attempt \<le> maxRetries \<longrightarrow>
      fetchLoop pf url maxRetries attempt w =
        (Some (FetchSuccess (body r) (the (contentType r))), attempt, w'))
   \<and> (fetchImageWithSessionHandling pf w url maxRetries =
        (Some (FetchFailure ''Unable to bypass bot protection after multiple attempts'' d u),
         n, w'') \<longrightarrow>
      n = maxRetries)
   \<and> ((\<forall>v. \<exists>r v'. attemptSteps pf v url = (Inr r, v') \<and> ok r
           \<and> \<not> isImageType (contentType r)
           \<and> (includesStr (body r) ''<!DOCTYPE html'' \<or> includesStr (body r) ''<html''))
        \<and> 1 \<le> maxRetries \<longrightarrow>
      (\<exists>d u w''. fetchImageWithSessionHandling pf w url maxRetries =
        (Some (FetchFailure ''Unable to bypass bot protection after multiple attempts'' d u),
         maxRetries, w'')))"
proof (intro conjI impI)
  assume "attemptSteps pf w url = (Inr r, w') \<and> ok r \<and> isImageType (contentType r)
      \<and> attempt \<le> maxRetries"
  then show "fetchLoop pf url maxRetries attempt w =
        (Some (FetchSuccess (body r) (the (contentType r))), attempt, w')"
    by (simp add: fetchLoop_image)
next
  assume "fetchImageWithSessionHandling pf w url maxRetries =
        (Some (FetchFailure ''Unable to bypass bot protection after multiple attempts'' d u),
         n, w'')"
  then show "n = maxRetries"
    unfolding fetchImageWithSessionHandling_def by (rule fetchLoop_failure_last)
next
  assume a: "(\<forall>v. \<exists>r v'. attemptSteps pf v url = (Inr r, v') \<and> ok r
           \<and> \<not> isImageType (contentType r)
           \<and> (includesStr (body r) ''<!DOCTYPE html'' \<or> includesStr (body r) ''<html''))
        \<and> 1 \<le> maxRetries"
  then show "\<exists>d u w''. fetchImageWithSessionHandling pf w url maxRetries =
        (Some (FetchFailure ''Unable to bypass bot protection after multiple attempts'' d u),
         maxRetries, w'')"
    unfolding fetchImageWithSessionHandling_def
    using fetchLoop_html [of pf url 1 maxRetries w] by blast
qed

lemma attemptSteps_example:
  "status r = 200 \<Longrightarrow> attemptSteps (examplePlatform r) n url = (Inr r, n + 3)"
  by (simp add: attemptSteps_def verificationHop_def examplePlatform_def Let_def)

lemma png_facts: "ok pngResponse \<and> isImageType (contentType pngResponse)"
  by (simp add: pngResponse_def ok_def isImageType_def startsWith_def)

lemma challenge_facts:
  "ok challengeResponse \<and> \<not> isImageType (contentType challengeResponse)
   \<and> includesStr (body challengeResponse) ''<html''"
  by (simp add: challengeResponse_def ok_def isImageType_def startsWith_def)

lemma fetch_challenge_example:
  "fetchImageWithSessionHandling (examplePlatform challengeResponse) 0 exampleImageUrl 3 =
     (Some (FetchFailure ''Unable to bypass bot protection after multiple attempts''
        ''<html><body>Checking your browser</body></html>''
        (Some ''https://cdn.example.com/slips/***'')), 3, 9)"
proof -
  let ?pf = "examplePlatform challengeResponse"
  have st: "status challengeResponse = 200"
    by (simp add: challengeResponse_def)
  have b: "attemptBody ?pf n exampleImageUrl attempt 3 =
      (if attempt = 3
       then Some (FetchFailure ''Unable to bypass bot protection after multiple attempts''
               (take 300 (body challengeResponse))
               (Some (maskSensitiveData (respUrl challengeResponse))))
       else None, n + 3)" for n attempt
    using attemptBody_html [OF attemptSteps_example [OF st], of n exampleImageUrl attempt 3]
      challenge_facts by simp
  let ?final = "(Some (FetchFailure ''Unable to bypass bot protection after multiple attempts''
               (take 300 (body challengeResponse))
               (Some (maskSensitiveData (respUrl challengeResponse)))), 3::nat, 9::nat)"
  have l3: "fetchLoop ?pf exampleImageUrl 3 3 6 = ?final"
    by (subst fetchLoop.simps) (simp add: b)
  have l2: "fetchLoop ?pf exampleImageUrl 3 2 3 = ?final"
    by (subst fetchLoop.simps) (simp add: b l3)
  have l2': "fetchLoop ?pf exampleImageUrl 3 (Suc (Suc 0)) 3 = ?final"
    using l2 by (simp add: numeral_2_eq_2)
  have "fetchLoop ?pf exampleImageUrl 3 1 0 = ?final"
    by (subst fetchLoop.simps) (simp add: b l2')
  then show ?thesis
    by (simp add: fetchImageWithSessionHandling_def challengeResponse_def maskSensitiveData_def
        startsWith_def)
qed

text \<open>
  The hypotheses with the default of three attempts: the image is returned by the first
  attempt, after three requests; the challenge page gives the failure for bot protection at
  the third attempt, after nine requests.
\<close>

theorem fetchImageWithSessionHandling_outcomes_witness:
  "attemptSteps (examplePlatform pngResponse) 0 exampleImageUrl = (Inr pngResponse, 3)
   \<and> ok pngResponse \<and> isImageType (contentType pngResponse)
   \<and> fetchImageWithSessionHandling (examplePlatform pngResponse) 0 exampleImageUrl 3 =
       (Some (FetchSuccess ''PNG-bytes'' ''image/png''), 1, 3)
   \<and> fetchImageWithSessionHandling (examplePlatform challengeResponse) 0 exampleImageUrl 3 =
       (Some (FetchFailure ''Unable to bypass bot protection after multiple attempts''
          ''<html><body>Checking your browser</body></html>''
          (Some ''https://cdn.example.com/slips/***'')), 3, 9)
   \<and> (\<exists>d u w''.
         fetchImageWithSessionHandling (examplePlatform challengeResponse) 0 exampleImageUrl 3 =
           (Some (FetchFailure ''Unable to bypass bot protection after multiple attempts'' d u),
            3, w''))"
proof -
  have st: "status pngResponse = 200" "status challengeResponse = 200"
    by (simp_all add: pngResponse_def challengeResponse_def)
  have a: "attemptSteps (examplePlatform pngResponse) 0 exampleImageUrl = (Inr pngResponse, 3)"
    using attemptSteps_example [OF st(1), of 0 exampleImageUrl] by simp
  have h: "\<forall>v. \<exists>r v'. attemptSteps (examplePlatform challengeResponse) v exampleImageUrl = (Inr r, v')
        \<and> ok r \<and> \<not> isImageType (contentType r)
        \<and> (includesStr (body r) ''<!DOCTYPE html'' \<or> includesStr (body r) ''<html'')"
    using attemptSteps_example [OF st(2)] challenge_facts by blast
  note t = fetchImageWithSessionHandling_outcomes
  have b: "fetchLoop (examplePlatform pngResponse) exampleImageUrl 3 1 0 =
      (Some (FetchSuccess (body pngResponse) (the (contentType pngResponse))), 1, 3)"
    using t [where pf = "examplePlatform pngResponse" and w = 0 and url = exampleImageUrl
        and r = pngResponse and w' = 3 and attempt = 1 and maxRetries = 3] a png_facts
    by simp
  have c: "\<exists>d u w''.
         fetchImageWithSessionHandling (examplePlatform challengeResponse) 0 exampleImageUrl 3 =
           (Some (FetchFailure ''Unable to bypass bot protection after multiple attempts'' d u),
            3, w'')"
    using t [where pf = "examplePlatform challengeResponse" and w = 0 and url = exampleImageUrl
        and maxRetries = 3] h
    by simp
  from b have b': "fetchImageWithSessionHandling (examplePlatform pngResponse) 0 exampleImageUrl 3 =
       (Some (FetchSuccess ''PNG-bytes'' ''image/png''), 1, 3)"
    by (simp add: fetchImageWithSessionHandling_def pngResponse_def)
  from a png_facts b' fetch_challenge_example c show ?thesis
    by blast
qed

section \<open>Properties of the upload coordinator\<close>

lemma generateFinalFilename_photo:
  "generateFinalFilename ''123e4567-e89b-42d3-a456-426614174000'' ''photo.png'' = ''photo_123e4567.jpg''"
  by (simp add: generateFinalFilename_def endsWith_def toLowerCase_def lowerChar_def
      extensionPattern_def dotJpgPattern_def char_class_defs)

lemma normalize_main: "normalize_str ''main'' = ''main''"
  by (simp add: normalize_str_def trim_def toLowerCase_def lowerChar_def isSpace_def isNormChar_def
      char_class_defs)

text \<open>
  Claim C3, as stated, fails for the empty image: a direct upload of a file of zero
  bytes is not rejected. It is written to the storage and reported as a success of size
  0.
\<close>

theorem processImageUpload_empty_counterexample:
  "processImageUpload (examplePlatform pngResponse) 0 validUpload (Some emptyFile) =
     (Inr (UploadSuccess
        ''https://abc.supabase.co/storage/v1/object/public/edge-slips/main/2024-01-15/photo_123e4567.jpg''
        ''photo_123e4567.jpg'' ''main/2024-01-15/photo_123e4567.jpg'' 0 ''direct-upload''),
      [(''main/2024-01-15/photo_123e4567.jpg'', [], ''image/png'')], 0)"
  by (simp add: processImageUpload_def acquireImage_def validateImageSize_def validUpload_def
      emptyFile_def examplePlatform_def generateFinalFilename_photo normalize_main Let_def)

lemma processImageUpload_too_large_file:
  assumes "length (fileBytes f) > 10 * 1024 * 1024"
  shows "processImageUpload pf w u (Some f) =
     (Inr (UploadFailure ''Image too large. Maximum size is 10MB'' None None), [], w)"
  using assms by (simp add: processImageUpload_def acquireImage_def validateImageSize_def)

lemma processImageUpload_too_large_url:
  assumes "truthy (imageUrl u)"
    and "fetchImageWithSessionHandling pf w (the (imageUrl u)) 3 =
           (Some (FetchSuccess imageData ctype), n, w')"
    and "length imageData > 10 * 1024 * 1024"
  shows "processImageUpload pf w u None =
     (Inr (UploadFailure ''Image too large. Maximum size is 10MB'' None None), [], w')"
  using assms by (simp add: processImageUpload_def acquireImage_def validateImageSize_def)

lemma isSpace_lowerChar: "isSpace (lowerChar c) = isSpace c"
  by (auto simp: lowerChar_def isSpace_def isUpperAZ_def code_def)

lemma dropWhile_no_space: "list_all (\<lambda>c. \<not> isSpace c) s \<Longrightarrow> dropWhile isSpace s = s"
  by (cases s) auto

lemma trim_no_space:
  assumes "list_all (\<lambda>c. \<not> isSpace c) s"
  shows "trim s = s"
proof -
  have "list_all (\<lambda>c. \<not> isSpace c) (rev s)"
    using assms by (simp add: list_all_iff)
  then have "dropWhile isSpace (rev s) = rev s"
    by (rule dropWhile_no_space)
  then show ?thesis
    using assms by (simp add: trim_def dropWhile_no_space)
qed

lemma replaceSpaces_no_space: "list_all (\<lambda>c. \<not> isSpace c) s \<Longrightarrow> replaceSpaces s = s"
  by (induction s) auto

lemma toLowerCase_no_space:
  "list_all (\<lambda>c. \<not> isSpace c) s \<Longrightarrow> list_all (\<lambda>c. \<not> isSpace c) (toLowerCase s)"
  by (induction s) (auto simp: toLowerCase_def isSpace_lowerChar)

lemma filter_none: "list_all (\<lambda>c. \<not> P c) s \<Longrightarrow> filter P s = []"
  by (induction s) auto

lemma normalize_str_empty:
  assumes "list_all (\<lambda>c. \<not> isSpace c) b"
    and "list_all (\<lambda>c. \<not> isNormChar c) (toLowerCase b)"
  shows "normalize_str b = []"
  using assms
  by (simp add: normalize_str_def trim_no_space replaceSpaces_no_space toLowerCase_no_space
      filter_none)

lemma validateUploadData_branch_present:
  assumes "branch u = Some b" and "b \<noteq> []"
  shows "''branch is required'' \<notin> set (validateUploadData u)"
    and "validateUploadData u = validateUploadData (u\<lparr>branch := Some ''main''\<rparr>)"
  using assms by (auto simp: validateUploadData_def truthy_def split: option.splits)

lemma acquireImage_early:
  "acquireImage pf w u imgFile = (Inl (Inr x), w') \<Longrightarrow> x \<noteq> UploadSuccess url ff path bytes mode"
  by (auto simp: acquireImage_def split: option.splits if_splits prod.splits fetchOutcome.splits)

lemma processImageUpload_early:
  "acquireImage pf w u imgFile = (Inl early, w1) \<Longrightarrow>
   processImageUpload pf w u imgFile = (early, [], w1)"
  by (simp add: processImageUpload_def)

lemma processImageUpload_too_large:
  "acquireImage pf w u imgFile = (Inr (imageData, ctype, mode), w1) \<Longrightarrow>
   validateImageSize imageData = Some sizeError \<Longrightarrow>
   processImageUpload pf w u imgFile = (Inr (UploadFailure sizeError None None), [], w1)"
  by (simp add: processImageUpload_def)

lemma processImageUpload_no_filename:
  "acquireImage pf w u imgFile = (Inr (imageData, ctype, mode), w1) \<Longrightarrow>
   validateImageSize imageData = None \<Longrightarrow> filename u = None \<Longrightarrow>
   fst (snd (processImageUpload pf w u imgFile)) = []
   \<and> fst (processImageUpload pf w u imgFile) = Inl ''Cannot read properties of undefined''"
  by (simp add: processImageUpload_def)

lemma processImageUpload_stored:
  assumes "acquireImage pf w u imgFile = (Inr (imageData, ctype, mode), w1)"
    and "validateImageSize imageData = None"
    and "filename u = Some f" and "branch u = Some b"
    and "randomUUID pf w1 = (uuid, w2)"
    and "storageUpload pf w2
           (normalize_str b @ ''/'' @ (case date u of Some d \<Rightarrow> d | None \<Rightarrow> ''undefined'') @ ''/'' @
              generateFinalFilename uuid f) imageData ctype = (uploadError, w3)"
  shows "processImageUpload pf w u imgFile =
     (case uploadError of
        Some message \<Rightarrow>
          Inr (UploadFailure ''Failed to upload image to storage'' (Some message) None)
      | None \<Rightarrow>
          Inr (UploadSuccess
                 (getPublicUrl pf
                    (normalize_str b @ ''/'' @ (case date u of Some d \<Rightarrow> d | None \<Rightarrow> ''undefined'') @
                       ''/'' @ generateFinalFilename uuid f))
                 (generateFinalFilename uuid f)
                 (normalize_str b @ ''/'' @ (case date u of Some d \<Rightarrow> d | None \<Rightarrow> ''undefined'') @
                    ''/'' @ generateFinalFilename uuid f)
                 (length imageData) mode),
      [(normalize_str b @ ''/'' @ (case date u of Some d \<Rightarrow> d | None \<Rightarrow> ''undefined'') @ ''/'' @
          generateFinalFilename uuid f, imageData, ctype)],
      w3)"
  using assms by (simp add: processImageUpload_def Let_def split: option.splits)

lemma acquireImage_file:
  "acquireImage pf w u (Some f) =
     (Inr (fileBytes f,
           if fileType f \<noteq> [] then fileType f else ''application/octet-stream'',
           ''direct-upload''), w)"
  by (simp add: acquireImage_def)

lemma acquireImage_url:
  assumes "truthy (imageUrl u)"
    and "fetchImageWithSessionHandling pf w (the (imageUrl u)) 3 =
           (Some (FetchSuccess imageData ctype), n, w1)"
  shows "acquireImage pf w u None = (Inr (imageData, ctype, ''url-upload''), w1)"
  using assms by (simp add: acquireImage_def)

lemma validateImageSize_within:
  "length imageData \<le> 10 * 1024 * 1024 \<Longrightarrow> validateImageSize imageData = None"
  by (simp add: validateImageSize_def)

lemma processImageUpload_within:
  assumes acq: "acquireImage pf w u imgFile = (Inr (imageData, ctype, mode), w1)"
    and len: "length imageData \<le> 10 * 1024 * 1024"
    and fields: "filename u = Some name" "branch u = Some b" "date u = Some d"
    and uu: "randomUUID pf w1 = (uuid, w2)"
    and path: "path = normalize_str b @ ''/'' @ d @ ''/'' @ generateFinalFilename uuid name"
    and up: "storageUpload pf w2 path imageData ctype = (uploadError, w3)"
  shows "processImageUpload pf w u imgFile =
     (case uploadError of
        None \<Rightarrow>
          Inr (UploadSuccess (getPublicUrl pf path) (generateFinalFilename uuid name) path
                 (length imageData) mode)
      | Some message \<Rightarrow>
          Inr (UploadFailure ''Failed to upload image to storage'' (Some message) None),
      [(path, imageData, ctype)], w3)"
  using processImageUpload_stored [OF acq validateImageSize_within [OF len] fields(1,2) uu,
      of uploadError w3] up fields(3) path
  by (cases uploadError) simp_all

text \<open>
  Claim C3, as the code has it. In both modes, bytes of a length above 10 MiB are
  rejected with the message of \<open>validateImageSize\<close>, and no write to the storage is
  made. In both modes, bytes of any length up to 10 MiB, the length 0 included, are not
  rejected: with filename, branch and date present, they are written to the storage under
  the computed path, in one write, and the result is the success with their length as
  size when the storage accepts the write, and the failure to upload when it refuses.
\<close>

theorem processImageUpload_size_check:
  "(length (fileBytes f) > 10 * 1024 * 1024 \<longrightarrow>
      processImageUpload pf w u (Some f) =
        (Inr (UploadFailure ''Image too large. Maximum size is 10MB'' None None), [], w))
   \<and> (truthy (imageUrl u)
       \<and> fetchImageWithSessionHandling pf w (the (imageUrl u)) 3 =
           (Some (FetchSuccess imageData ctype), n, wF)
       \<and> length imageData > 10 * 1024 * 1024 \<longrightarrow>
      processImageUpload pf w u None =
        (Inr (UploadFailure ''Image too large. Maximum size is 10MB'' None None), [], wF))
   \<and> (length (fileBytes f) \<le> 10 * 1024 * 1024
       \<and> filename u = Some name \<and> branch u = Some b \<and> date u = Some d
       \<and> randomUUID pf w = (uuid, wU)
       \<and> path = normalize_str b @ ''/'' @ d @ ''/'' @ generateFinalFilename uuid name
       \<and> ftype = (if fileType f \<noteq> [] then fileType f else ''application/octet-stream'')
       \<and> storageUpload pf wU path (fileBytes f) ftype = (uploadError, wS) \<longrightarrow>
      processImageUpload pf w u (Some f) =
        (case uploadError of
           None \<Rightarrow>
             Inr (UploadSuccess (getPublicUrl pf path) (generateFinalFilename uuid name) path
                    (length (fileBytes f)) ''direct-upload'')
         | Some message \<Rightarrow>
             Inr (UploadFailure ''Failed to upload image to storage'' (Some message) None),
         [(path, fileBytes f, ftype)], wS))
   \<and> (truthy (imageUrl u)
       \<and> fetchImageWithSessionHandling pf w (the (imageUrl u)) 3 =
           (Some (FetchSuccess imageData ctype), n, wF)
       \<and> length imageData \<le> 10 * 1024 * 1024
       \<and> filename u = Some name \<and> branch u = Some b \<and> date u = Some d
       \<and> randomUUID pf wF = (uuid', wU')
       \<and> path' = normalize_str b @ ''/'' @ d @ ''/'' @ generateFinalFilename uuid' name
       \<and> storageUpload pf wU' path' imageData ctype = (uploadError', wS') \<longrightarrow>
      processImageUpload pf w u None =
        (case uploadError' of
           None \<Rightarrow>
             Inr (UploadSuccess (getPublicUrl pf path') (generateFinalFilename uuid' name) path'
                    (length imageData) ''url-upload'')
         | Some message \<Rightarrow>
             Inr (UploadFailure ''Failed to upload image to storage'' (Some message) None),
         [(path', imageData, ctype)], wS'))"
proof (intro conjI impI)
  assume "length (fileBytes f) > 10 * 1024 * 1024"
  then show "processImageUpload pf w u (Some f) =
        (Inr (UploadFailure ''Image too large. Maximum size is 10MB'' None None), [], w)"
    by (rule processImageUpload_too_large_file)
next
  assume "truthy (imageUrl u)
       \<and> fetchImageWithSessionHandling pf w (the (imageUrl u)) 3 =
           (Some (FetchSuccess imageData ctype), n, wF)
       \<and> length imageData > 10 * 1024 * 1024"
  then show "processImageUpload pf w u None =
        (Inr (UploadFailure ''Image too large. Maximum size is 10MB'' None None), [], wF)"
    using processImageUpload_too_large_url [of u pf w imageData ctype n wF] by blast
next
  assume a: "length (fileBytes f) \<le> 10 * 1024 * 1024
       \<and> filename u = Some name \<and> branch u = Some b \<and> date u = Some d
       \<and> randomUUID pf w = (uuid, wU)
       \<and> path = normalize_str b @ ''/'' @ d @ ''/'' @ generateFinalFilename uuid name
       \<and> ftype = (if fileType f \<noteq> [] then fileType f else ''application/octet-stream'')
       \<and> storageUpload pf wU path (fileBytes f) ftype = (uploadError, wS)"
  have acq: "acquireImage pf w u (Some f) = (Inr (fileBytes f, ftype, ''direct-upload''), w)"
    using a by (simp add: acquireImage_file)
  show "processImageUpload pf w u (Some f) =
        (case uploadError of
           None \<Rightarrow>
             Inr (UploadSuccess (getPublicUrl pf path) (generateFinalFilename uuid name) path
                    (length (fileBytes f)) ''direct-upload'')
         | Some message \<Rightarrow>
             Inr (UploadFailure ''Failed to upload image to storage'' (Some message) None),
         [(path, fileBytes f, ftype)], wS)"
    using a by (intro processImageUpload_within [OF acq]) auto
next
  assume a: "truthy (imageUrl u)
       \<and> fetchImageWithSessionHandling pf w (the (imageUrl u)) 3 =
           (Some (FetchSuccess imageData ctype), n, wF)
       \<and> length imageData \<le> 10 * 1024 * 1024
       \<and> filename u = Some name \<and> branch u = Some b \<and> date u = Some d
       \<and> randomUUID pf wF = (uuid', wU')
       \<and> path' = normalize_str b @ ''/'' @ d @ ''/'' @ generateFinalFilename uuid' name
       \<and> storageUpload pf wU' path' imageData ctype = (uploadError', wS')"
  have acq: "acquireImage pf w u None = (Inr (imageData, ctype, ''url-upload''), wF)"
    using a acquireImage_url [of u pf w imageData ctype n wF] by blast
  show "processImageUpload pf w u None =
        (case uploadError' of
           None \<Rightarrow>
             Inr (UploadSuccess (getPublicUrl pf path') (generateFinalFilename uuid' name) path'
                    (length imageData) ''url-upload'')
         | Some message \<Rightarrow>
             Inr (UploadFailure ''Failed to upload image to storage'' (Some message) None),
         [(path', imageData, ctype)], wS')"
    using a by (intro processImageUpload_within [OF acq]) auto
qed

lemma fetch_example_image:
  assumes "status r = 200" and "contentType r = Some ''image/png''"
  shows "fetchImageWithSessionHandling (examplePlatform r) 0 url 3 =
           (Some (FetchSuccess (body r) ''image/png''), 1, 3)"
proof -
  have "ok r" and "isImageType (contentType r)"
    using assms by (simp_all add: ok_def isImageType_def startsWith_def)
  then show ?thesis
    using fetchLoop_image [of "examplePlatform r" 0 url r 3 1 3]
      attemptSteps_example [OF assms(1), of 0 url] assms(2)
    by (simp add: fetchImageWithSessionHandling_def)
qed

text \<open>
  The hypotheses at a file, and at a fetched image, of 10 MiB and one byte, which are
  rejected without a write, and at a file, and at a fetched image, of no bytes, which
  are stored and reported as a success of size 0.
\<close>

theorem processImageUpload_size_check_witness:
  "length (fileBytes hugeFile) > 10 * 1024 * 1024
   \<and> processImageUpload (examplePlatform pngResponse) 0 validUpload (Some hugeFile) =
       (Inr (UploadFailure ''Image too large. Maximum size is 10MB'' None None), [], 0)
   \<and> truthy (imageUrl urlUpload)
   \<and> fetchImageWithSessionHandling (examplePlatform hugeResponse) 0 (the (imageUrl urlUpload)) 3 =
       (Some (FetchSuccess (replicate 10485761 (CHR 0x00)) ''image/png''), 1, 3)
   \<and> processImageUpload (examplePlatform hugeResponse) 0 urlUpload None =
       (Inr (UploadFailure ''Image too large. Maximum size is 10MB'' None None), [], 3)
   \<and> length (fileBytes emptyFile) = 0
   \<and> processImageUpload (examplePlatform pngResponse) 0 validUpload (Some emptyFile) =
       (Inr (UploadSuccess
          ''https://abc.supabase.co/storage/v1/object/public/edge-slips/main/2024-01-15/photo_123e4567.jpg''
          ''photo_123e4567.jpg'' ''main/2024-01-15/photo_123e4567.jpg'' 0 ''direct-upload''),
        [(''main/2024-01-15/photo_123e4567.jpg'', [], ''image/png'')], 0)
   \<and> fetchImageWithSessionHandling (examplePlatform emptyResponse) 0 (the (imageUrl urlUpload)) 3 =
       (Some (FetchSuccess [] ''image/png''), 1, 3)
   \<and> processImageUpload (examplePlatform emptyResponse) 0 urlUpload None =
       (Inr (UploadSuccess
          ''https://abc.supabase.co/storage/v1/object/public/edge-slips/main/2024-01-15/photo_123e4567.jpg''
          ''photo_123e4567.jpg'' ''main/2024-01-15/photo_123e4567.jpg'' 0 ''url-upload''),
        [(''main/2024-01-15/photo_123e4567.jpg'', [], ''image/png'')], 3)"
proof -
  let ?path = "''main/2024-01-15/photo_123e4567.jpg''"
  let ?uuid = "''123e4567-e89b-42d3-a456-426614174000''"
  have a: "length (fileBytes hugeFile) > 10 * 1024 * 1024"
    by (simp add: hugeFile_def)
  have b: "truthy (imageUrl urlUpload)"
    by (simp add: urlUpload_def validUpload_def truthy_def exampleImageUrl_def)
  have c: "fetchImageWithSessionHandling (examplePlatform hugeResponse) 0 (the (imageUrl urlUpload)) 3 =
       (Some (FetchSuccess (replicate 10485761 (CHR 0x00)) ''image/png''), 1, 3)"
    using fetch_example_image [of hugeResponse "the (imageUrl urlUpload)"]
    by (simp add: hugeResponse_def pngResponse_def)
  have c': "fetchImageWithSessionHandling (examplePlatform emptyResponse) 0 (the (imageUrl urlUpload)) 3 =
       (Some (FetchSuccess [] ''image/png''), 1, 3)"
    using fetch_example_image [of emptyResponse "the (imageUrl urlUpload)"]
    by (simp add: emptyResponse_def pngResponse_def)
  have d: "length (replicate 10485761 (CHR 0x00)) > 10 * 1024 * 1024"
    by simp
  have fields: "filename validUpload = Some ''photo.png''" "branch validUpload = Some ''main''"
    "date validUpload = Some ''2024-01-15''"
    "filename urlUpload = Some ''photo.png''" "branch urlUpload = Some ''main''"
    "date urlUpload = Some ''2024-01-15''"
    by (simp_all add: validUpload_def urlUpload_def)
  have path: "?path = normalize_str ''main'' @ ''/'' @ ''2024-01-15'' @ ''/'' @
      generateFinalFilename ?uuid ''photo.png''"
    by (simp add: normalize_main generateFinalFilename_photo)
  have ef: "length (fileBytes emptyFile) = 0" "fileBytes emptyFile = []"
    "''image/png'' = (if fileType emptyFile \<noteq> [] then fileType emptyFile
                       else ''application/octet-stream'')"
    by (simp_all add: emptyFile_def)
  have pf: "randomUUID (examplePlatform r) k = (?uuid, k)"
    "storageUpload (examplePlatform r) k p bs ct = (None, k)"
    "getPublicUrl (examplePlatform r) ?path =
       ''https://abc.supabase.co/storage/v1/object/public/edge-slips/main/2024-01-15/photo_123e4567.jpg''"
    for r k p bs ct
    by (simp_all add: examplePlatform_def)
  note t = processImageUpload_size_check
  have e: "processImageUpload (examplePlatform pngResponse) 0 validUpload (Some hugeFile) =
       (Inr (UploadFailure ''Image too large. Maximum size is 10MB'' None None), [], 0)"
    using t [where f = hugeFile and pf = "examplePlatform pngResponse" and w = 0
        and u = validUpload] a
    by blast
  have f: "processImageUpload (examplePlatform hugeResponse) 0 urlUpload None =
       (Inr (UploadFailure ''Image too large. Maximum size is 10MB'' None None), [], 3)"
    using t [where pf = "examplePlatform hugeResponse" and w = 0 and u = urlUpload
        and imageData = "replicate 10485761 (CHR 0x00)" and ctype = "''image/png''"
        and n = 1 and wF = 3]
      b c d
    by blast
  have g: "processImageUpload (examplePlatform pngResponse) 0 validUpload (Some emptyFile) =
       (Inr (UploadSuccess
          ''https://abc.supabase.co/storage/v1/object/public/edge-slips/main/2024-01-15/photo_123e4567.jpg''
          ''photo_123e4567.jpg'' ?path 0 ''direct-upload''),
        [(?path, [], ''image/png'')], 0)"
    using t [where f = emptyFile and pf = "examplePlatform pngResponse" and w = 0
        and u = validUpload and name = "''photo.png''" and b = "''main''"
        and d = "''2024-01-15''" and uuid = ?uuid and wU = 0 and path = ?path
        and ftype = "''image/png''" and uploadError = None and wS = 0]
      fields(1-3) path ef pf [of pngResponse]
    by (simp add: generateFinalFilename_photo)
  have h: "processImageUpload (examplePlatform emptyResponse) 0 urlUpload None =
       (Inr (UploadSuccess
          ''https://abc.supabase.co/storage/v1/object/public/edge-slips/main/2024-01-15/photo_123e4567.jpg''
          ''photo_123e4567.jpg'' ?path 0 ''url-upload''),
        [(?path, [], ''image/png'')], 3)"
    using t [where pf = "examplePlatform emptyResponse" and w = 0 and u = urlUpload
        and imageData = "[]" and ctype = "''image/png''" and n = 1 and wF = 3
        and name = "''photo.png''" and b = "''main''" and d = "''2024-01-15''"
        and uuid' = ?uuid and wU' = 3 and path' = ?path and uploadError' = None and wS' = 3]
      b c' fields(4-6) path pf [of emptyResponse]
    by (simp add: generateFinalFilename_photo)
  from a b c e f ef(1) g c' h show ?thesis
    by blast
qed

lemma processImageUpload_paths:
  assumes br: "branch u = Some b" and n: "normalize_str b = []" and d: "date u = Some d"
    and run: "processImageUpload pf w u imgFile = (res, writes, w')"
  shows "list_all (\<lambda>(path, bytes, ctype). startsWith path (''/'' @ d @ ''/'')) writes
     \<and> (\<forall>url ff path bytes mode.
           res = Inr (UploadSuccess url ff path bytes mode) \<longrightarrow> path = ''/'' @ d @ ''/'' @ ff)"
proof (cases "acquireImage pf w u imgFile")
  case (Pair acquired w1)
  show ?thesis
  proof (cases acquired)
    case (Inl early)
    with Pair run have "res = early" and "writes = []"
      by (simp_all add: processImageUpload_early)
    moreover have "early \<noteq> Inr (UploadSuccess url ff path bytes mode)" for url ff path bytes mode
      using Pair Inl acquireImage_early [of pf w u imgFile _ w1 url ff path bytes mode] by auto
    ultimately show ?thesis
      by simp
  next
    case (Inr triple)
    obtain imageData ctype mode where triple: "triple = (imageData, ctype, mode)"
      by (cases triple)
    with Pair Inr have acq: "acquireImage pf w u imgFile = (Inr (imageData, ctype, mode), w1)"
      by simp
    show ?thesis
    proof (cases "validateImageSize imageData")
      case (Some sizeError)
      with run processImageUpload_too_large [OF acq Some] show ?thesis
        by auto
    next
      case None
      show ?thesis
      proof (cases "filename u")
        case no: None
        with run processImageUpload_no_filename [OF acq None no] show ?thesis
          by auto
      next
        case (Some f)
        obtain uuid w2 where uu: "randomUUID pf w1 = (uuid, w2)"
          by (cases "randomUUID pf w1")
        obtain uploadError w3 where up: "storageUpload pf w2
           (normalize_str b @ ''/'' @ (case date u of Some d \<Rightarrow> d | None \<Rightarrow> ''undefined'') @ ''/'' @
              generateFinalFilename uuid f) imageData ctype = (uploadError, w3)"
          by (cases "storageUpload pf w2
           (normalize_str b @ ''/'' @ (case date u of Some d \<Rightarrow> d | None \<Rightarrow> ''undefined'') @ ''/'' @
              generateFinalFilename uuid f) imageData ctype")
        show ?thesis
          using run processImageUpload_stored [OF acq None Some br uu up] n d
          by (cases uploadError) (auto simp: startsWith_def)
      qed
    qed
  qed
qed

text \<open>
  Claim C10. Let the branch be a non-empty string without white space whose lowercased
  characters are all outside \<open>[a-z0-9-]\<close>. Then the validator does not report the
  branch, and returns what it returns for the branch \<open>main\<close>; the normalized branch is
  empty; and every storage path that \<open>processImageUpload\<close> computes, the one it writes to
  and the one it reports, begins with a slash followed by the date.
\<close>

theorem processImageUpload_empty_branch_segment:
  assumes "branch u = Some b" and "b \<noteq> []"
    and "list_all (\<lambda>c. \<not> isSpace c) b"
    and "list_all (\<lambda>c. \<not> isNormChar c) (toLowerCase b)"
  shows "''branch is required'' \<notin> set (validateUploadData u)
     \<and> validateUploadData u = validateUploadData (u\<lparr>branch := Some ''main''\<rparr>)
     \<and> normalize_str b = []
     \<and> (date u = Some d \<and> processImageUpload pf w u imgFile = (res, writes, w') \<longrightarrow>
          list_all (\<lambda>(path, bytes, ctype). startsWith path (''/'' @ d @ ''/'')) writes
          \<and> (\<forall>url ff path bytes mode.
                res = Inr (UploadSuccess url ff path bytes mode) \<longrightarrow>
                path = ''/'' @ d @ ''/'' @ ff))"
proof -
  have n: "normalize_str b = []"
    using assms(3,4) by (rule normalize_str_empty)
  have v: "''branch is required'' \<notin> set (validateUploadData u)"
    "validateUploadData u = validateUploadData (u\<lparr>branch := Some ''main''\<rparr>)"
    using validateUploadData_branch_present [OF assms(1,2)] by simp_all
  have p: "list_all (\<lambda>(path, bytes, ctype). startsWith path (''/'' @ d @ ''/'')) writes
          \<and> (\<forall>url ff path bytes mode.
                res = Inr (UploadSuccess url ff path bytes mode) \<longrightarrow>
                path = ''/'' @ d @ ''/'' @ ff)"
    if "date u = Some d" and "processImageUpload pf w u imgFile = (res, writes, w')"
    using processImageUpload_paths [OF assms(1) n that] .
  from v n p show ?thesis
    by (intro conjI impI) simp_all
qed

lemma normalize_bangs: "normalize_str ''!!!'' = []"
  by (simp add: normalize_str_def trim_def toLowerCase_def lowerChar_def isSpace_def isNormChar_def
      char_class_defs)

lemma oddBranch_upload:
  "processImageUpload (examplePlatform pngResponse) 0 oddBranchUpload (Some smallFile) =
     (Inr (UploadSuccess
        ''https://abc.supabase.co/storage/v1/object/public/edge-slips//2024-01-15/photo_123e4567.jpg''
        ''photo_123e4567.jpg'' ''/2024-01-15/photo_123e4567.jpg'' 9 ''direct-upload''),
      [(''/2024-01-15/photo_123e4567.jpg'', ''PNG-bytes'', ''image/png'')], 0)"
  by (simp add: processImageUpload_def acquireImage_def validateImageSize_def validUpload_def
      oddBranchUpload_def smallFile_def examplePlatform_def generateFinalFilename_photo
      normalize_bangs Let_def)

text \<open>
  The hypotheses at the branch \<open>!!!\<close>: the payload is valid, and the upload is stored
  under \<open>/2024-01-15/photo_123e4567.jpg\<close>.
\<close>

theorem processImageUpload_empty_branch_segment_witness:
  "branch oddBranchUpload = Some ''!!!'' \<and> ''!!!'' \<noteq> []
   \<and> list_all (\<lambda>c. \<not> isSpace c) ''!!!''
   \<and> list_all (\<lambda>c. \<not> isNormChar c) (toLowerCase ''!!!'')
   \<and> validateUploadData oddBranchUpload = []
   \<and> normalize_str ''!!!'' = []
   \<and> date oddBranchUpload = Some ''2024-01-15''
   \<and> processImageUpload (examplePlatform pngResponse) 0 oddBranchUpload (Some smallFile) =
       (Inr (UploadSuccess
          ''https://abc.supabase.co/storage/v1/object/public/edge-slips//2024-01-15/photo_123e4567.jpg''
          ''photo_123e4567.jpg'' ''/2024-01-15/photo_123e4567.jpg'' 9 ''direct-upload''),
        [(''/2024-01-15/photo_123e4567.jpg'', ''PNG-bytes'', ''image/png'')], 0)
   \<and> list_all (\<lambda>(path, bytes, ctype). startsWith path ''/2024-01-15/'')
         [(''/2024-01-15/photo_123e4567.jpg'', ''PNG-bytes'', ''image/png'')]"
proof -
  have a: "branch oddBranchUpload = Some ''!!!''"
    by (simp add: oddBranchUpload_def validUpload_def)
  have b: "''!!!'' \<noteq> []"
    by simp
  have c: "list_all (\<lambda>c. \<not> isSpace c) ''!!!''"
    by (simp add: isSpace_def code_def)
  have d: "list_all (\<lambda>c. \<not> isNormChar c) (toLowerCase ''!!!'')"
    by (simp add: toLowerCase_def lowerChar_def isNormChar_def char_class_defs)
  have e: "date oddBranchUpload = Some ''2024-01-15''"
    by (simp add: oddBranchUpload_def validUpload_def)
  have v: "validateUploadData (oddBranchUpload\<lparr>branch := Some ''main''\<rparr>) = []"
    by (simp add: validateUploadData_def oddBranchUpload_def validUpload_def truthy_def
        dateRegex_def validFilenamePattern_def imageExtensions_def char_class_defs)
  note t = processImageUpload_empty_branch_segment [OF a b c d,
      where d = "''2024-01-15''" and pf = "examplePlatform pngResponse" and w = 0
        and imgFile = "Some smallFile"
        and res = "Inr (UploadSuccess
          ''https://abc.supabase.co/storage/v1/object/public/edge-slips//2024-01-15/photo_123e4567.jpg''
          ''photo_123e4567.jpg'' ''/2024-01-15/photo_123e4567.jpg'' 9 ''direct-upload'')"
        and writes = "[(''/2024-01-15/photo_123e4567.jpg'', ''PNG-bytes'', ''image/png'')]"
        and w' = 0]
  from t have t1: "validateUploadData oddBranchUpload =
      validateUploadData (oddBranchUpload\<lparr>branch := Some ''main''\<rparr>)"
    and t2: "normalize_str ''!!!'' = []"
    by blast+
  from t e oddBranch_upload have h:
    "list_all (\<lambda>(path, bytes, ctype). startsWith path (''/'' @ ''2024-01-15'' @ ''/''))
       [(''/2024-01-15/photo_123e4567.jpg'', ''PNG-bytes'', ''image/png'')]"
    by blast
  from h have h': "list_all (\<lambda>(path, bytes, ctype). startsWith path ''/2024-01-15/'')
         [(''/2024-01-15/photo_123e4567.jpg'', ''PNG-bytes'', ''image/png'')]"
    by simp
  from t1 v have f: "validateUploadData oddBranchUpload = []"
    by simp
  from a b c d e f t2 h' oddBranch_upload show ?thesis
    by blast
qed

end
